theory Spec2Isabelle
  imports Complex_Main "HOL-Library.Word" "HOL-Library.Monad_Syntax"
begin

section \<open>The P compiler (pcomp.cc) and its collaborators\<close>

text \<open>
  A shallow embedding of the Pascal-lite compiler \<^verbatim>\<open>PComp\<close> (pcomp.cc), of the PL/0
  compilers it evolved from (pl0com.cc, pl0ccomp.cc) where they share code, and of the
  parts of the P machine the compiler's run-time checks rely on (instr.h).

  The compiler is a C++ object mutated by its productions. Here the object is the record
  \<open>PComp\<close>, every production takes it and returns it updated, and a production that
  dereferences a null type descriptor or a stale iterator (undefined behaviour in C++)
  has no result: \<open>None\<close>.
\<close>

subsection \<open>Datum, SubRange and TypeDesc\<close>

text \<open>
  \<^verbatim>\<open>Datum\<close> (datum.h) is a variant over an integer and a real. The compiler only
  moves Datums around (into instructions and symbol table entries) and negates constants,
  so the real payload is the number the double denotes.
\<close>

datatype Datum = IntegerDatum int | RealDatum real

datatype SubRange = SubRange (minimum: int) (maximum: int)

datatype Kind = Integer | Real | Boolean | Character | Array | Record | Enumeration | Pointer | SRange

text \<open>
  A type descriptor. \<^verbatim>\<open>TDescPtr\<close> is a shared pointer that may be null, hence an option.
  The selectors are \<^verbatim>\<open>tclass()\<close>, \<^verbatim>\<open>size()\<close>, \<^verbatim>\<open>range()\<close>, \<^verbatim>\<open>itype()\<close>, \<^verbatim>\<open>base()\<close> and
  \<^verbatim>\<open>fields()\<close>; a field is a name and a descriptor.
\<close>

datatype TypeDesc =
  TypeDesc (tclass: Kind) (tsize: nat) (trange: SubRange)
    (itype: "TypeDesc option") (base: "TypeDesc option")
    (tfields: "(string \<times> TypeDesc option) list")

type_synonym TDescPtr = "TypeDesc option"

text \<open>
  Modelled from the spec: typedesc.h and typedesc.cc are absent. \<open>isOrdinal\<close> holds for
  the kinds Integer, Boolean, Character, Enumeration and SubRange.
\<close>

definition isOrdinal :: "TypeDesc \<Rightarrow> bool" where
  "isOrdinal t = (tclass t \<in> {Integer, Boolean, Character, Enumeration, SRange})"

text \<open>
  Modelled from the spec: \<^verbatim>\<open>TypeDesc::maxRange\<close>, the range of the machine's integers
  (the limits of a 32 bit \<^verbatim>\<open>int\<close>), and the descriptors of the built-in types, each of
  size one Datum.
\<close>

definition maxRange :: SubRange where
  "maxRange = SubRange (- 2147483648) 2147483647"

definition newIntDesc :: "SubRange \<Rightarrow> TypeDesc" where
  "newIntDesc r = TypeDesc Integer 1 r None None []"

definition newEnumDesc :: "SubRange \<Rightarrow> TypeDesc" where
  "newEnumDesc r = TypeDesc Enumeration 1 r None None []"

definition newPointerDesc :: "TDescPtr \<Rightarrow> TypeDesc" where
  "newPointerDesc b = TypeDesc Pointer 1 maxRange None b []"

definition newArrayDesc :: "nat \<Rightarrow> SubRange \<Rightarrow> TDescPtr \<Rightarrow> TDescPtr \<Rightarrow> TypeDesc" where
  "newArrayDesc sz r it b = TypeDesc Array sz r it b []"

definition newRcrdDesc :: "nat \<Rightarrow> (string \<times> TDescPtr) list \<Rightarrow> TypeDesc" where
  "newRcrdDesc sz fs = TypeDesc Record sz (SubRange 0 0) None None fs"

definition intDesc :: TypeDesc where
  "intDesc = newIntDesc maxRange"

definition realDesc :: TypeDesc where
  "realDesc = TypeDesc Real 1 maxRange None None []"

definition boolDesc :: TypeDesc where
  "boolDesc = TypeDesc Boolean 1 (SubRange 0 1) None None []"

definition charDesc :: TypeDesc where
  "charDesc = TypeDesc Character 1 (SubRange 0 127) None None []"

subsection \<open>Symbol table\<close>

datatype SymKind = Constant | Variable | Type | Procedure | Function

text \<open>
  Modelled from the spec: symbol.h is absent. A \<^verbatim>\<open>SymValue\<close> has a kind, a lexical level,
  a value (a constant, a frame offset or a code address), an optional type and, for a
  subroutine, the types of its formal parameters.
\<close>

record SymValue =
  skind :: SymKind
  slevel :: int
  svalue :: Datum
  stype :: TDescPtr
  sparams :: "TDescPtr list"

definition makeType :: "int \<Rightarrow> TDescPtr \<Rightarrow> SymValue" where
  "makeType l t = \<lparr>skind = Type, slevel = l, svalue = IntegerDatum 0, stype = t, sparams = []\<rparr>"

definition makeConst :: "int \<Rightarrow> Datum \<Rightarrow> TDescPtr \<Rightarrow> SymValue" where
  "makeConst l v t = \<lparr>skind = Constant, slevel = l, svalue = v, stype = t, sparams = []\<rparr>"

definition makeVar :: "int \<Rightarrow> int \<Rightarrow> TDescPtr \<Rightarrow> SymValue" where
  "makeVar l dx t = \<lparr>skind = Variable, slevel = l, svalue = IntegerDatum dx, stype = t, sparams = []\<rparr>"

definition makeSbr :: "SymKind \<Rightarrow> int \<Rightarrow> SymValue" where
  "makeSbr k l = \<lparr>skind = k, slevel = l, svalue = IntegerDatum 0, stype = None, sparams = []\<rparr>"

text \<open>
  \<^verbatim>\<open>SymbolTable\<close> is a \<^verbatim>\<open>std::multimap\<close> from identifier to \<^verbatim>\<open>SymValue\<close>: entries of one
  name are kept in insertion order. An entry carries an identity, so that the iterators
  and references the compiler keeps to an entry (\<^verbatim>\<open>subPrefixDecl\<close>, \<^verbatim>\<open>blockDecl\<close>) still
  name it after other entries were inserted or erased.
\<close>

record Entry =
  eid :: nat
  ename :: string
  esym :: SymValue

type_synonym SymbolTable = "Entry list"

subsection \<open>Instructions (instr.h)\<close>

text \<open>
  The operation codes of instr.h. pcomp.cc calls the last four of the comparison and logic
  group \<^verbatim>\<open>NEQ\<close>, \<^verbatim>\<open>OR\<close>, \<^verbatim>\<open>AND\<close> and \<^verbatim>\<open>NOT\<close>.
\<close>

datatype (plugins only: code size) OpCode =
    NEG | ITOR | ITOR2 | ROUND | TRUNC | ABS | ATAN | EXP | LOG
  | DUP | ODD | PRED | SUCC
  | SIN | SQR | SQRT
  | WRITE | WRITELN | NEW | DISPOSE
  | ADD | SUB | MUL | DIV | REM
  | LT | LTE | EQU | GTE | GT | NEQU
  | LOR | LAND | LNOT
  | POP | PUSH | PUSHVAR | EVAL | ASSIGN | COPY
  | CALL | ENTER | RET | RETF | JUMP | JNEQ
  | LLIMIT | ULIMIT
  | HALT

datatype Instr = Instr (op: OpCode) (level: "8 word") (addr: Datum)

type_synonym InstrVector = "Instr list"

text \<open>The activation frame layout: \<^verbatim>\<open>enum Frame\<close>.\<close>

definition FrameBase :: int where "FrameBase = 0"
definition FrameOldFp :: int where "FrameOldFp = 1"
definition FrameRetAddr :: int where "FrameRetAddr = 2"
definition FrameRetVal :: int where "FrameRetVal = 3"
definition FrameSize :: int where "FrameSize = 4"

subsection \<open>Tokens\<close>

text \<open>
  Modelled from the spec: token.h is absent; the tokenizer delivers a stream of classified
  tokens. These are the kinds pcomp.cc names, and \<open>EOS\<close> for the end of the stream.
\<close>

datatype (plugins only: code size) TokenKind =
    TkUnknown | TkEOS
  | TkIdentifier | TkIntegerNum | TkRealNum | TkString
  | TkOpenParen | TkCloseParen | TkOpenBrkt | TkCloseBrkt
  | TkNot | TkMultiply | TkDivide | TkMod | TkAnd | TkAdd | TkSubtract | TkOr
  | TkLTE | TkLT | TkGT | TkGTE | TkEQU | TkNEQ
  | TkComma | TkColon | TkSemiColon | TkPeriod | TkCaret | TkEllipsis | TkAssign
  | TkRound | TkTrunc | TkAbs | TkAtan | TkExp | TkLog | TkOdd | TkPred | TkSucc
  | TkSin | TkSqr | TkSqrt | TkOrd
  | TkIf | TkThen | TkElse | TkWhile | TkDo | TkRepeat | TkUntil | TkFor | TkTo | TkDownTo
  | TkBegin | TkEnd | TkWrite | TkWriteln | TkNew | TkDispose
  | TkConsDecl | TkTypeDecl | TkVarDecl | TkProcDecl | TkFuncDecl | TkProgDecl
  | TkArray | TkOf | TkRecord
  | TkBoolType | TkCharType | TkIntType | TkRealType

record Token =
  kind :: TokenKind
  string_value :: string
  integer_value :: int
  real_value :: real

definition mkToken :: "TokenKind \<Rightarrow> Token" where
  "mkToken k = \<lparr>kind = k, string_value = [], integer_value = 0, real_value = 0\<rparr>"

subsection \<open>The compiler object\<close>

text \<open>
  What error streams into a diagnostic: literal text, numbers, identifiers, token kinds,
  type kinds and Datums, in order.
\<close>

datatype Piece = Lit string | Num int | Str string | Tok TokenKind | Cls Kind | Dat Datum

type_synonym Diag = "Piece list"

text \<open>
  The compiler's members: the token stream (the current token and the tokens not yet
  read), the emitted code, the error count, the diagnostics written so far, the symbol
  table and the identity of the next entry. The error count is an \<^verbatim>\<open>unsigned\<close>
  (pl0com.h, p.cc): 32 bits, and \<^verbatim>\<open>++nErrors\<close> wraps around.
\<close>

record PComp =
  cur :: Token
  pending :: "Token list"
  code :: InstrVector
  nErrors :: "32 word"
  diags :: "Diag list"
  symtbl :: SymbolTable
  nextId :: nat

subsection \<open>Compilier: the productions' helpers\<close>

text \<open>
  \<^verbatim>\<open>PComp\<close> inherits \<^verbatim>\<open>error\<close>, \<^verbatim>\<open>next\<close>, \<^verbatim>\<open>accept\<close>, \<^verbatim>\<open>expect\<close> and \<^verbatim>\<open>emit\<close> from
  \<^verbatim>\<open>Compilier\<close>, whose source is absent; these follow \<^verbatim>\<open>PL0CComp\<close> (pl0ccomp.cc), the
  compiler it was derived from.
\<close>

text \<open>
  \<^verbatim>\<open>error(s)\<close>: write a diagnostic, increment the error count
  (\<^verbatim>\<open>++nErrors\<close> on an \<^verbatim>\<open>unsigned\<close>: the successor of \<open>2^32 - 1\<close> is 0).
\<close>

definition error :: "Diag \<Rightarrow> PComp \<Rightarrow> PComp" where
  "error d s = s\<lparr>diags := diags s @ [d], nErrors := nErrors s + 1\<rparr>"

text \<open>\<^verbatim>\<open>next()\<close>: read the next token from the stream; at its end, the end-of-stream token.\<close>

definition nextToken :: "PComp \<Rightarrow> PComp" where
  "nextToken s =
     (case pending s of
        [] \<Rightarrow> s\<lparr>cur := mkToken TkEOS\<rparr>
      | t # ts \<Rightarrow> s\<lparr>cur := t, pending := ts\<rparr>)"

definition current :: "PComp \<Rightarrow> TokenKind" where
  "current s = kind (cur s)"

definition accept :: "TokenKind \<Rightarrow> bool \<Rightarrow> PComp \<Rightarrow> bool \<times> PComp" where
  "accept k get s =
     (if current s = k then (True, if get then nextToken s else s) else (False, s))"

definition expect :: "TokenKind \<Rightarrow> bool \<Rightarrow> PComp \<Rightarrow> bool \<times> PComp" where
  "expect k get s =
     (case accept k get s of
        (True, s') \<Rightarrow> (True, s')
      | (False, s') \<Rightarrow> (False, error [Lit ''expected'', Tok k, Lit ''got'', Tok (current s')] s'))"

text \<open>\<^verbatim>\<open>emit(op, level, addr)\<close>: append the instruction, return its address.\<close>

definition emit :: "OpCode \<Rightarrow> int \<Rightarrow> Datum \<Rightarrow> PComp \<Rightarrow> nat \<times> PComp" where
  "emit o' l d s = (length (code s), s\<lparr>code := code s @ [Instr o' (word_of_int l) d]\<rparr>)"

definition emit0 :: "OpCode \<Rightarrow> PComp \<Rightarrow> PComp" where
  "emit0 o' s = snd (emit o' 0 (IntegerDatum 0) s)"

definition emitI :: "OpCode \<Rightarrow> int \<Rightarrow> int \<Rightarrow> PComp \<Rightarrow> PComp" where
  "emitI o' l a s = snd (emit o' l (IntegerDatum a) s)"

subsection \<open>Numeric promotion\<close>

definition isAnInteger :: "TypeDesc \<Rightarrow> bool" where
  "isAnInteger t = (tclass t = Integer)"

definition isAReal :: "TypeDesc \<Rightarrow> bool" where
  "isAReal t = (tclass t = Real)"

text \<open>\<^verbatim>\<open>PComp::promote\<close>: promote binary stack operands as necessary.\<close>

definition promote :: "TDescPtr \<Rightarrow> TDescPtr \<Rightarrow> PComp \<Rightarrow> (TDescPtr \<times> PComp) option" where
  "promote lhs rhs s =
     do {
       l \<leftarrow> lhs;
       r \<leftarrow> rhs;
       if tclass l = tclass r then Some (lhs, s)
       else if (isAnInteger l \<and> isAnInteger r) \<or> (isAReal l \<and> isAReal r) then Some (lhs, s)
       else if isAnInteger l \<and> isAReal r then Some (rhs, emit0 ITOR2 s)
       else if isAReal l \<and> isAnInteger r then Some (lhs, emit0 ITOR s)
       else Some (lhs, error [Lit ''incompatable binary types''] s)
     }"

text \<open>\<^verbatim>\<open>PComp::assignPromote\<close>: convert the r-value of an assignment, then emit limit checks.\<close>

definition assignPromote :: "TDescPtr \<Rightarrow> TDescPtr \<Rightarrow> PComp \<Rightarrow> PComp option" where
  "assignPromote lhs rhs s =
     do {
       l \<leftarrow> lhs;
       r \<leftarrow> rhs;
       let s1 =
         (if tclass l = tclass r then s
          else if (isAnInteger l \<and> isAnInteger r) \<or> (isAReal l \<and> isAReal r) then s
          else if isAnInteger l \<and> isAReal r
            then emit0 ROUND (error [Lit ''rounding real to fit in an integer''] s)
          else if isAReal l \<and> isAnInteger r then emit0 ITOR s
          else error [Lit ''incompatable assignment types''] s);
       Some (if isOrdinal l \<and> trange l \<noteq> maxRange
             then emitI ULIMIT 0 (maximum (trange l)) (emitI LLIMIT 0 (minimum (trange l)) s1)
             else s1)
     }"

subsection \<open>Symbol table operations\<close>

text \<open>\<^verbatim>\<open>symtbl.insert({name, value})\<close>: the new entry goes after the entries of the same name.\<close>

definition insert_sym :: "string \<Rightarrow> SymValue \<Rightarrow> PComp \<Rightarrow> nat \<times> PComp" where
  "insert_sym n v s =
     (nextId s,
      s\<lparr>symtbl := symtbl s @ [\<lparr>eid = nextId s, ename = n, esym = v\<rparr>], nextId := nextId s + 1\<rparr>)"

definition insertS :: "string \<Rightarrow> SymValue \<Rightarrow> PComp \<Rightarrow> PComp" where
  "insertS n v s = snd (insert_sym n v s)"

definition equal_range :: "string \<Rightarrow> SymbolTable \<Rightarrow> Entry list" where
  "equal_range n t = filter (\<lambda>e. ename e = n) t"

text \<open>
  The search for the closest entry of a name, as \<^verbatim>\<open>PL0CComp::identifier\<close> writes it:
  \<^verbatim>\<open>for (it = range.first; it != range.second; ++it)
    if (it->second.level > closest->second.level) closest = it;\<close>
\<close>

fun closestFrom :: "Entry \<Rightarrow> Entry list \<Rightarrow> Entry" where
  "closestFrom c [] = c"
| "closestFrom c (e # es) =
     closestFrom (if slevel (esym e) > slevel (esym c) then e else c) es"

text \<open>
  Modelled from the spec: \<^verbatim>\<open>Compilier::lookup\<close> is absent. It returns the entry of the
  name with the greatest level (the search above), or reports the undefined identifier
  and returns \<^verbatim>\<open>symtbl.end()\<close>. An iterator that is only read is the entry it points to.
\<close>

definition lookup :: "string \<Rightarrow> PComp \<Rightarrow> Entry option \<times> PComp" where
  "lookup n s =
     (case equal_range n (symtbl s) of
        [] \<Rightarrow> (None, error [Lit ''Undefined identifier'', Str n] s)
      | e # es \<Rightarrow> (Some (closestFrom e es), s))"

text \<open>
  \<^verbatim>\<open>purge(level)\<close>: remove the symbols only visible at this level. \<^verbatim>\<open>Compilier::purge\<close> is
  absent; this is the loop at the end of \<^verbatim>\<open>PL0Comp::block\<close> and \<^verbatim>\<open>PL0CComp::block\<close>:
  \<^verbatim>\<open>for (auto i = symtbl.begin(); i != symtbl.end(); )
    if (i->second.level == level) i = symtbl.erase(i); else ++i;\<close>
\<close>

fun purgeLoop :: "int \<Rightarrow> SymbolTable \<Rightarrow> SymbolTable" where
  "purgeLoop l [] = []"
| "purgeLoop l (e # es) =
     (if slevel (esym e) = l then purgeLoop l es else e # purgeLoop l es)"

definition purge :: "int \<Rightarrow> PComp \<Rightarrow> PComp" where
  "purge l s = s\<lparr>symtbl := purgeLoop l (symtbl s)\<rparr>"

subsection \<open>Construction\<close>

text \<open>A compiler with nothing read, nothing emitted and an empty symbol table.\<close>

definition Compilier :: PComp where
  "Compilier =
     \<lparr>cur = mkToken TkUnknown, pending = [], code = [], nErrors = 0, diags = [],
      symtbl = [], nextId = 0\<rparr>"

text \<open>\<^verbatim>\<open>PComp::PComp()\<close>: insert the built-in types and constants into the symbol table.\<close>

definition PComp_new :: PComp where
  "PComp_new =
     (insertS ''false'' (makeConst 0 (IntegerDatum 0) (Some boolDesc))
     (insertS ''true'' (makeConst 0 (IntegerDatum 1) (Some boolDesc))
     (insertS ''nil'' (makeConst 0 (IntegerDatum 0) (Some (newPointerDesc (Some intDesc))))
     (insertS ''maxint'' (makeConst 0 (IntegerDatum (maximum maxRange)) (Some intDesc))
     (insertS ''real'' (makeType 0 (Some realDesc))
     (insertS ''integer'' (makeType 0 (Some intDesc))
     (insertS ''char'' (makeType 0 (Some charDesc))
     (insertS ''bool'' (makeType 0 (Some boolDesc)) Compilier))))))))"

text \<open>The names the constructor declares.\<close>

definition builtins :: "(string \<times> SymValue) list" where
  "builtins =
     [(''bool'', makeType 0 (Some boolDesc)), (''char'', makeType 0 (Some charDesc)),
      (''integer'', makeType 0 (Some intDesc)), (''real'', makeType 0 (Some realDesc)),
      (''maxint'', makeConst 0 (IntegerDatum (maximum maxRange)) (Some intDesc)),
      (''nil'', makeConst 0 (IntegerDatum 0) (Some (newPointerDesc (Some intDesc)))),
      (''true'', makeConst 0 (IntegerDatum 1) (Some boolDesc)),
      (''false'', makeConst 0 (IntegerDatum 0) (Some boolDesc))]"

text \<open>
  The driver (\<^verbatim>\<open>main\<close> of p.cc) runs the compiled program only if the compiler returned
  an error count of zero: \<^verbatim>\<open>else if (0 == (nErrors = comp(...)))\<close>, with \<^verbatim>\<open>unsigned nErrors\<close>.
\<close>

definition driverRuns :: "32 word \<Rightarrow> bool" where
  "driverRuns n = (n = 0)"

text \<open>
  The limit checks \<^verbatim>\<open>assignPromote\<close> emits for a target type: none unless the type is an
  ordinal whose range is not the maximal one.
\<close>

definition limitChecks :: "TypeDesc \<Rightarrow> Instr list" where
  "limitChecks l =
     (if isOrdinal l \<and> trange l \<noteq> maxRange
      then [Instr LLIMIT 0 (IntegerDatum (minimum (trange l))),
            Instr ULIMIT 0 (IntegerDatum (maximum (trange l)))]
      else [])"

text \<open>
  A symbol table with entries at two levels: a global \<open>x\<close>, a procedure \<open>p\<close> and a local
  \<open>x\<close> of its block.
\<close>

definition twoLevels :: PComp where
  "twoLevels =
     insertS ''x'' (makeVar 1 4 (Some intDesc))
       (insertS ''p'' (makeSbr Procedure 0)
         (insertS ''x'' (makeVar 0 4 (Some realDesc)) Compilier))"

subsection \<open>Expressions\<close>

text \<open>
  The productions call one another recursively, and whether they return depends on the
  token stream. Each production therefore takes a bound on the depth of nested calls as
  its first argument, and has no result once the bound is used up. Loops of a production
  (\<^verbatim>\<open>for (;;)\<close> and \<^verbatim>\<open>do ... while\<close>) are functions of their own, named after it.

  \<open>acc k s\<close> is the result of \<^verbatim>\<open>accept(k)\<close>, \<open>adv k s\<close> the compiler after it, \<open>peek k s\<close>
  the result of \<^verbatim>\<open>accept(k, false)\<close>, and \<open>expectS k s\<close> the compiler after \<^verbatim>\<open>expect(k)\<close>.
\<close>

abbreviation acc :: "TokenKind \<Rightarrow> PComp \<Rightarrow> bool" where "acc k s \<equiv> fst (accept k True s)"
abbreviation adv :: "TokenKind \<Rightarrow> PComp \<Rightarrow> PComp" where "adv k s \<equiv> snd (accept k True s)"
abbreviation peek :: "TokenKind \<Rightarrow> PComp \<Rightarrow> bool" where "peek k s \<equiv> fst (accept k False s)"
abbreviation expectS :: "TokenKind \<Rightarrow> PComp \<Rightarrow> PComp" where "expectS k s \<equiv> snd (expect k True s)"

text \<open>
  Modelled from the spec: \<^verbatim>\<open>Compilier::emitVarRef\<close> is absent. It emits
  \<^verbatim>\<open>PUSHVAR level - symLevel, offset\<close> for the base variable.
\<close>

definition emitVarRef :: "int \<Rightarrow> SymValue \<Rightarrow> PComp \<Rightarrow> PComp" where
  "emitVarRef lvl v s = snd (emit PUSHVAR (lvl - slevel v) (svalue v) s)"

text \<open>
  The search of \<^verbatim>\<open>varSelector\<close> for the selected field, summing the sizes of the fields
  before it. A selector that names no field leaves the type as it was, with the offset past
  the last field.
\<close>

fun fieldOffset :: "string \<Rightarrow> (string \<times> TDescPtr) list \<Rightarrow> TDescPtr \<Rightarrow> nat \<Rightarrow> (TDescPtr \<times> nat) option" where
  "fieldOffset sel [] ty off = Some (ty, off)"
| "fieldOffset sel ((nm, ft) # fs) ty off =
     (if nm = sel then Some (ft, off)
      else do { f \<leftarrow> ft; fieldOffset sel fs ty (off + tsize f) })"

text \<open>\<^verbatim>\<open>PComp::varSelector\<close>: a selector reference; the period has already been consumed.\<close>

definition varSelector :: "Entry \<Rightarrow> TDescPtr \<Rightarrow> PComp \<Rightarrow> (TDescPtr \<times> PComp) option" where
  "varSelector it ty s =
     do {
       t \<leftarrow> ty;
       let s1 = (if tclass t \<noteq> Record
                 then error [Lit ''attempted selector reference into non-record'', Str (ename it)] s
                 else s);
       let selector = string_value (cur s1);
       (case expect TkIdentifier True s1 of
          (True, s2) \<Rightarrow>
            do {
              (ty', offset) \<leftarrow> fieldOffset selector (tfields t) ty 0;
              Some (ty', if offset > 0 then emit0 ADD (emitI PUSH 0 (int offset) s2) else s2)
            }
        | (False, s2) \<Rightarrow> Some (ty, s2))
     }"

text \<open>
  The loop of \<^verbatim>\<open>PComp::varArray\<close> over the index expressions, which
  \<^verbatim>\<open>expressionList\<close> has compiled before: limit checks, scaling by the element size,
  the offset of the lower bound, and the addition to the address.
\<close>

fun varArrayIndexes :: "TDescPtr list \<Rightarrow> nat \<Rightarrow> TypeDesc \<Rightarrow> TDescPtr \<Rightarrow> PComp \<Rightarrow> (TDescPtr \<times> PComp) option" where
  "varArrayIndexes [] nindexes atype ty s = Some (ty, s)"
| "varArrayIndexes (index # rest) nindexes atype ty s =
     do {
       let s1 = emitI ULIMIT 0 (maximum (trange atype)) (emitI LLIMIT 0 (minimum (trange atype)) s);
       it \<leftarrow> itype atype;
       ix \<leftarrow> index;
       s2 \<leftarrow> (if tclass it \<noteq> tclass ix
              then Some (error [Lit ''incompatable array index type, expected '', Cls (tclass it),
                                Lit '' got '', Cls (tclass ix)] s1)
              else do { t \<leftarrow> ty;
                        Some (if tsize t \<noteq> 1 then emit0 MUL (emitI PUSH 0 (int (tsize t)) s1) else s1) });
       let s3 = (if minimum (trange atype) \<noteq> 0
                 then emit0 SUB (emitI PUSH 0 (minimum (trange atype)) s2) else s2);
       let s4 = emit0 ADD s3;
       if nindexes - 1 \<noteq> 0
       then do { t \<leftarrow> ty; varArrayIndexes rest (nindexes - 1) t (base t) s4 }
       else varArrayIndexes rest (nindexes - 1) atype ty s4
     }"

text \<open>The loop of \<^verbatim>\<open>factor\<close> over a string literal: \<^verbatim>\<open>for (char c : s) emit(PUSH, 0, c)\<close>.\<close>

fun pushChars :: "string \<Rightarrow> PComp \<Rightarrow> PComp" where
  "pushChars [] s = s"
| "pushChars (c # cs) s = pushChars cs (emitI PUSH 0 (of_char c) s)"

text \<open>
  The productions of expressions, from \<^verbatim>\<open>identFactor\<close> to \<^verbatim>\<open>variable\<close>. \<open>parenExpr\<close> is
  what every branch of \<^verbatim>\<open>builtInFunc\<close> starts with:
  \<^verbatim>\<open>expect(Token::OpenParen); type = expression(level); expect(Token::CloseParen);\<close>
  A branch of \<^verbatim>\<open>builtInFunc\<close> that only writes its message to the local string stream,
  without passing it to \<^verbatim>\<open>error\<close>, reports nothing: abs, atan, exp, log, odd, pred, sin,
  sqr, sqrt and succ.
\<close>

function (sequential)
  identFactor :: "nat \<Rightarrow> int \<Rightarrow> string \<Rightarrow> PComp \<Rightarrow> (TDescPtr \<times> PComp) option" and
  parenExpr :: "nat \<Rightarrow> int \<Rightarrow> PComp \<Rightarrow> (TDescPtr \<times> PComp) option" and
  builtInFunc :: "nat \<Rightarrow> int \<Rightarrow> PComp \<Rightarrow> (TDescPtr \<times> PComp) option" and
  factor :: "nat \<Rightarrow> int \<Rightarrow> PComp \<Rightarrow> (TDescPtr \<times> PComp) option" and
  termLoop :: "nat \<Rightarrow> int \<Rightarrow> TDescPtr \<Rightarrow> PComp \<Rightarrow> (TDescPtr \<times> PComp) option" and
  termProd :: "nat \<Rightarrow> int \<Rightarrow> PComp \<Rightarrow> (TDescPtr \<times> PComp) option" and
  unary :: "nat \<Rightarrow> int \<Rightarrow> PComp \<Rightarrow> (TDescPtr \<times> PComp) option" and
  simpleExprLoop :: "nat \<Rightarrow> int \<Rightarrow> TDescPtr \<Rightarrow> PComp \<Rightarrow> (TDescPtr \<times> PComp) option" and
  simpleExpr :: "nat \<Rightarrow> int \<Rightarrow> PComp \<Rightarrow> (TDescPtr \<times> PComp) option" and
  expressionLoop :: "nat \<Rightarrow> int \<Rightarrow> TDescPtr \<Rightarrow> PComp \<Rightarrow> (TDescPtr \<times> PComp) option" and
  expression :: "nat \<Rightarrow> int \<Rightarrow> PComp \<Rightarrow> (TDescPtr \<times> PComp) option" and
  expressionList :: "nat \<Rightarrow> int \<Rightarrow> PComp \<Rightarrow> (TDescPtr list \<times> PComp) option" and
  callParams :: "nat \<Rightarrow> int \<Rightarrow> TDescPtr list \<Rightarrow> nat \<Rightarrow> PComp \<Rightarrow> (nat \<times> PComp) option" and
  callStatement :: "nat \<Rightarrow> int \<Rightarrow> Entry \<Rightarrow> PComp \<Rightarrow> PComp option" and
  varArray :: "nat \<Rightarrow> int \<Rightarrow> Entry \<Rightarrow> TDescPtr \<Rightarrow> PComp \<Rightarrow> (TDescPtr \<times> PComp) option" and
  variableLoop :: "nat \<Rightarrow> int \<Rightarrow> Entry \<Rightarrow> TDescPtr \<Rightarrow> PComp \<Rightarrow> (TDescPtr \<times> PComp) option" and
  variable :: "nat \<Rightarrow> int \<Rightarrow> Entry \<Rightarrow> PComp \<Rightarrow> (TDescPtr \<times> PComp) option"
where
  "identFactor 0 lvl ident s = None"
| "identFactor (Suc n) lvl ident s =
     (case lookup ident s of
        (None, s1) \<Rightarrow> Some (Some intDesc, s1)
      | (Some it, s1) \<Rightarrow>
          (case skind (esym it) of
             Constant \<Rightarrow> Some (stype (esym it), snd (emit PUSH 0 (svalue (esym it)) s1))
           | Variable \<Rightarrow>
               do {
                 (ty, s2) \<leftarrow> variable n lvl it s1;
                 t \<leftarrow> ty;
                 Some (ty, emitI EVAL 0 (int (tsize t)) s2)
               }
           | Function \<Rightarrow>
               do { s2 \<leftarrow> callStatement n lvl it s1; Some (stype (esym it), s2) }
           | _ \<Rightarrow>
               Some (Some intDesc,
                 error [Lit ''Identifier is not a constant, variable or function'', Str (ename it)] s1)))"
| "parenExpr 0 lvl s = None"
| "parenExpr (Suc n) lvl s =
     do {
       (ty, s1) \<leftarrow> expression n lvl (expectS TkOpenParen s);
       Some (ty, expectS TkCloseParen s1)
     }"
| "builtInFunc 0 lvl s = None"
| "builtInFunc (Suc n) lvl s =
     (if acc TkRound s then
        do {
          (ty, s1) \<leftarrow> parenExpr n lvl (adv TkRound s);
          t \<leftarrow> ty;
          if tclass t \<noteq> Real
          then Some (ty, error [Lit ''expeced real value, got: '', Tok (current s1)] s1)
          else Some (Some intDesc, emit0 ROUND s1)
        }
      else if acc TkTrunc s then
        do {
          (ty, s1) \<leftarrow> parenExpr n lvl (adv TkTrunc s);
          t \<leftarrow> ty;
          if tclass t \<noteq> Real
          then Some (ty, error [Lit ''expeced real value, got: '', Tok (current s1)] s1)
          else Some (Some intDesc, emit0 TRUNC s1)
        }
      else if acc TkAbs s then
        do {
          (ty, s1) \<leftarrow> parenExpr n lvl (adv TkAbs s);
          t \<leftarrow> ty;
          if tclass t \<noteq> Integer \<and> tclass t \<noteq> Real then Some (ty, s1)
          else Some (ty, emit0 ABS s1)
        }
      else if acc TkAtan s then
        do {
          (ty, s1) \<leftarrow> parenExpr n lvl (adv TkAtan s);
          t \<leftarrow> ty;
          Some (if tclass t = Integer then Some realDesc else ty, emit0 ATAN s1)
        }
      else if acc TkExp s then
        do {
          (ty, s1) \<leftarrow> parenExpr n lvl (adv TkExp s);
          t \<leftarrow> ty;
          Some (if tclass t = Integer then Some realDesc else ty, emit0 EXP s1)
        }
      else if acc TkLog s then
        do {
          (ty, s1) \<leftarrow> parenExpr n lvl (adv TkLog s);
          t \<leftarrow> ty;
          Some (if tclass t = Integer then Some realDesc else ty, emit0 LOG s1)
        }
      else if acc TkOdd s then
        do {
          (ty, s1) \<leftarrow> parenExpr n lvl (adv TkOdd s);
          t \<leftarrow> ty;
          Some (ty, emit0 ODD s1)
        }
      else if acc TkPred s then
        do {
          (ty, s1) \<leftarrow> parenExpr n lvl (adv TkPred s);
          t \<leftarrow> ty;
          Some (ty, emitI PRED 0 (minimum (trange t)) s1)
        }
      else if acc TkSin s then
        do {
          (ty, s1) \<leftarrow> parenExpr n lvl (adv TkSin s);
          t \<leftarrow> ty;
          Some (if tclass t = Integer then Some realDesc else ty, emit0 SIN s1)
        }
      else if acc TkSqr s then
        do {
          (ty, s1) \<leftarrow> parenExpr n lvl (adv TkSqr s);
          t \<leftarrow> ty;
          Some (if tclass t = Integer then Some realDesc else ty, emit0 SQR s1)
        }
      else if acc TkSqrt s then
        do {
          (ty, s1) \<leftarrow> parenExpr n lvl (adv TkSqrt s);
          t \<leftarrow> ty;
          Some (if tclass t = Integer then Some realDesc else ty, emit0 SQRT s1)
        }
      else if acc TkSucc s then
        do {
          (ty, s1) \<leftarrow> parenExpr n lvl (adv TkSucc s);
          t \<leftarrow> ty;
          Some (ty, emitI SUCC 0 (maximum (trange t)) s1)
        }
      else if acc TkOrd s then
        do {
          (ty, s1) \<leftarrow> parenExpr n lvl (adv TkOrd s);
          t \<leftarrow> ty;
          if \<not> isOrdinal t
          then Some (ty, error [Lit ''expected ordinal, got: '', Tok (current s1)] s1)
          else Some (Some intDesc, s1)
        }
      else
        Some (Some intDesc,
          nextToken (error [Lit ''bultInFunc: syntax error; expected ident | num | { expr }, got: '',
                            Tok (current s)] s)))"
| "factor 0 lvl s = None"
| "factor (Suc n) lvl s =
     (if peek TkIdentifier s then
        identFactor n lvl (string_value (cur s)) (nextToken s)
      else if peek TkIntegerNum s then
        Some (Some intDesc, expectS TkIntegerNum (emitI PUSH 0 (integer_value (cur s)) s))
      else if peek TkRealNum s then
        Some (Some realDesc, expectS TkRealNum (snd (emit PUSH 0 (RealDatum (real_value (cur s))) s)))
      else if acc TkOpenParen s then
        do {
          (ty, s1) \<leftarrow> expression n lvl (adv TkOpenParen s);
          Some (ty, expectS TkCloseParen s1)
        }
      else if acc TkNot s then
        factor n lvl (emit0 LNOT (adv TkNot s))
      else if peek TkString s then
        (let str = string_value (cur s); s1 = nextToken s in
         if length str = 1 then Some (Some charDesc, emitI PUSH 0 (of_char (hd str)) s1)
         else Some (Some (newArrayDesc (length str) (SubRange 0 (int (length str) - 1))
                            (Some intDesc) (Some charDesc)),
                    pushChars str s1))
      else builtInFunc n lvl s)"
| "termLoop 0 lvl lhs s = None"
| "termLoop (Suc n) lvl lhs s =
     (if acc TkMultiply s then
        do { (rhs, s1) \<leftarrow> factor n lvl (adv TkMultiply s);
             (ty, s2) \<leftarrow> promote lhs rhs s1;
             termLoop n lvl ty (emit0 MUL s2) }
      else if acc TkDivide s then
        do { (rhs, s1) \<leftarrow> factor n lvl (adv TkDivide s);
             (ty, s2) \<leftarrow> promote lhs rhs s1;
             termLoop n lvl ty (emit0 DIV s2) }
      else if acc TkMod s then
        do { (rhs, s1) \<leftarrow> factor n lvl (adv TkMod s);
             (ty, s2) \<leftarrow> promote lhs rhs s1;
             termLoop n lvl ty (emit0 REM s2) }
      else if acc TkAnd s then
        do { (rhs, s1) \<leftarrow> factor n lvl (adv TkAnd s);
             (ty, s2) \<leftarrow> promote lhs rhs s1;
             termLoop n lvl ty (emit0 LAND s2) }
      else Some (lhs, s))"
| "termProd 0 lvl s = None"
| "termProd (Suc n) lvl s =
     do { (lhs, s1) \<leftarrow> factor n lvl s; termLoop n lvl lhs s1 }"
| "unary 0 lvl s = None"
| "unary (Suc n) lvl s =
     (if acc TkAdd s then termProd n lvl (adv TkAdd s)
      else if acc TkSubtract s then
        do { (ty, s1) \<leftarrow> termProd n lvl (adv TkSubtract s); Some (ty, emit0 NEG s1) }
      else termProd n lvl s)"
| "simpleExprLoop 0 lvl lhs s = None"
| "simpleExprLoop (Suc n) lvl lhs s =
     (if acc TkAdd s then
        do { (rhs, s1) \<leftarrow> unary n lvl (adv TkAdd s);
             (ty, s2) \<leftarrow> promote lhs rhs s1;
             simpleExprLoop n lvl ty (emit0 ADD s2) }
      else if acc TkSubtract s then
        do { (rhs, s1) \<leftarrow> unary n lvl (adv TkSubtract s);
             (ty, s2) \<leftarrow> promote lhs rhs s1;
             simpleExprLoop n lvl ty (emit0 SUB s2) }
      else if acc TkOr s then
        do { (rhs, s1) \<leftarrow> unary n lvl (adv TkOr s);
             (ty, s2) \<leftarrow> promote lhs rhs s1;
             simpleExprLoop n lvl ty (emit0 LOR s2) }
      else Some (lhs, s))"
| "simpleExpr 0 lvl s = None"
| "simpleExpr (Suc n) lvl s =
     do { (lhs, s1) \<leftarrow> unary n lvl s; simpleExprLoop n lvl lhs s1 }"
| "expressionLoop 0 lvl lhs s = None"
| "expressionLoop (Suc n) lvl lhs s =
     (if acc TkLTE s then
        do { (rhs, s1) \<leftarrow> simpleExpr n lvl (adv TkLTE s);
             (ty, s2) \<leftarrow> promote lhs rhs s1;
             expressionLoop n lvl ty (emit0 LTE s2) }
      else if acc TkLT s then
        do { (rhs, s1) \<leftarrow> simpleExpr n lvl (adv TkLT s);
             (ty, s2) \<leftarrow> promote lhs rhs s1;
             expressionLoop n lvl ty (emit0 LT s2) }
      else if acc TkGT s then
        do { (rhs, s1) \<leftarrow> simpleExpr n lvl (adv TkGT s);
             (ty, s2) \<leftarrow> promote lhs rhs s1;
             expressionLoop n lvl ty (emit0 GT s2) }
      else if acc TkGTE s then
        do { (rhs, s1) \<leftarrow> simpleExpr n lvl (adv TkGTE s);
             (ty, s2) \<leftarrow> promote lhs rhs s1;
             expressionLoop n lvl ty (emit0 GTE s2) }
      else if acc TkEQU s then
        do { (rhs, s1) \<leftarrow> simpleExpr n lvl (adv TkEQU s);
             (ty, s2) \<leftarrow> promote lhs rhs s1;
             expressionLoop n lvl ty (emit0 EQU s2) }
      else if acc TkNEQ s then
        do { (rhs, s1) \<leftarrow> simpleExpr n lvl (adv TkNEQ s);
             (ty, s2) \<leftarrow> promote lhs rhs s1;
             expressionLoop n lvl ty (emit0 NEQU s2) }
      else Some (lhs, s))"
| "expression 0 lvl s = None"
| "expression (Suc n) lvl s =
     do { (lhs, s1) \<leftarrow> simpleExpr n lvl s; expressionLoop n lvl lhs s1 }"
| "expressionList 0 lvl s = None"
| "expressionList (Suc n) lvl s =
     do {
       (ty, s1) \<leftarrow> expression n lvl s;
       if acc TkComma s1
       then do { (tys, s2) \<leftarrow> expressionList n lvl (adv TkComma s1); Some (ty # tys, s2) }
       else Some ([ty], s1)
     }"
| "callParams 0 lvl params nParams s = None"
| "callParams (Suc n) lvl params nParams s =
     do {
       (kind, s1) \<leftarrow> expression n lvl s;
       s2 \<leftarrow> (if length params > nParams then assignPromote (params ! nParams) kind s1 else Some s1);
       if acc TkComma s2 then callParams n lvl params (nParams + 1) (adv TkComma s2)
       else Some (nParams + 1, s2)
     }"
| "callStatement 0 lvl it s = None"
| "callStatement (Suc n) lvl it s =
     do {
       s3 \<leftarrow>
         (if acc TkOpenParen s then
            do {
              let s0 = adv TkOpenParen s;
              let params = sparams (esym it);
              (nParams, s1) \<leftarrow>
                (if \<not> peek TkCloseParen s0 then callParams n lvl params 0 s0 else Some (0, s0));
              let s2 = expectS TkCloseParen s1;
              Some (if nParams \<noteq> length params
                    then error [Lit ''passing '', Num (int nParams), Lit '' parameters, where '',
                                Num (int (length params)), Lit '' expected''] s2
                    else s2)
            }
          else Some s);
       let s4 = (if Procedure \<noteq> skind (esym it) \<and> Function \<noteq> skind (esym it)
                 then error [Lit ''Identifier is not a function or procedure'', Str (ename it)] s3
                 else s3);
       Some (snd (emit CALL (lvl - slevel (esym it)) (svalue (esym it)) s4))
     }"
| "varArray 0 lvl it ty s = None"
| "varArray (Suc n) lvl it ty s =
     do {
       atype \<leftarrow> ty;
       let s1 = (if tclass atype \<noteq> Array
                 then error [Lit ''attempt to index into non-array'', Str (ename it)] s else s);
       (indexes, s2) \<leftarrow> expressionList n lvl s1;
       let s3 = (if indexes = [] then error [Lit ''expected expression-list''] s2 else s2);
       varArrayIndexes indexes (length indexes) atype (base atype) s3
     }"
| "variableLoop 0 lvl it ty s = None"
| "variableLoop (Suc n) lvl it ty s =
     (if acc TkOpenBrkt s then
        do { (ty', s1) \<leftarrow> varArray n lvl it ty (adv TkOpenBrkt s);
             variableLoop n lvl it ty' (expectS TkCloseBrkt s1) }
      else if acc TkPeriod s then
        do { (ty', s1) \<leftarrow> varSelector it ty (adv TkPeriod s);
             variableLoop n lvl it ty' s1 }
      else if acc TkCaret s then
        do { t \<leftarrow> ty;
             let s1 = emitI EVAL 0 (int (tsize t)) (adv TkCaret s);
             if tclass t \<noteq> Pointer
             then variableLoop n lvl it ty (error [Lit ''expected a pointer, got '', Cls (tclass t)] s1)
             else variableLoop n lvl it (base t) s1 }
      else Some (ty, s))"
| "variable 0 lvl it s = None"
| "variable (Suc n) lvl it s =
     variableLoop n lvl it (stype (esym it)) (emitVarRef lvl (esym it) s)"

  by pat_completeness auto


termination
  by (relation "measure (case_sum
        (case_sum (case_sum (case_sum fst fst) (case_sum fst fst))
                  (case_sum (case_sum fst fst) (case_sum fst fst)))
        (case_sum (case_sum (case_sum fst fst) (case_sum fst fst))
                  (case_sum (case_sum fst fst) (case_sum fst (case_sum fst fst)))))") auto

subsection \<open>Statements\<close>

text \<open>
  \<^verbatim>\<open>(*code)[pc].addr = a\<close>: patch the address of an emitted instruction. An index past
  the end of the code is undefined behaviour.
\<close>

definition patch :: "nat \<Rightarrow> nat \<Rightarrow> PComp \<Rightarrow> PComp option" where
  "patch pc a s =
     (if pc < length (code s)
      then Some (s\<lparr>code := (code s)[pc := Instr (op (code s ! pc)) (level (code s ! pc))
                                              (IntegerDatum (int a))]\<rparr>)
      else None)"

text \<open>
  \<^verbatim>\<open>PComp::assignStatement\<close>: \<open>variable := expression\<close>. Emits the l-value (a variable or
  the return value of a function), optionally duplicates it, emits the r-value, its
  promotion and limit checks, and the assignment.
\<close>

definition assignStatement :: "nat \<Rightarrow> int \<Rightarrow> Entry \<Rightarrow> bool \<Rightarrow> PComp \<Rightarrow> PComp option" where
  "assignStatement n lvl it dup s =
     do {
       (ty, s1) \<leftarrow>
         (if skind (esym it) = Function then Some (stype (esym it), emitI PUSHVAR 0 FrameRetVal s)
          else if skind (esym it) = Variable then variable n lvl it s
          else Some (stype (esym it),
                 error [Lit ''expected a variable or a function, got:'', Str (ename it)] s));
       let s2 = (if dup then emit0 DUP s1 else s1);
       let s3 = expectS TkAssign s2;
       (rtype, s4) \<leftarrow> expression n lvl s3;
       s5 \<leftarrow> assignPromote ty rtype s4;
       t \<leftarrow> ty;
       Some (emitI ASSIGN 0 (int (tsize t)) s5)
     }"

text \<open>\<^verbatim>\<open>PComp::identStatement\<close>: an assignment statement, or a procedure call.\<close>

definition identStatement :: "nat \<Rightarrow> int \<Rightarrow> string \<Rightarrow> PComp \<Rightarrow> PComp option" where
  "identStatement n lvl ident s =
     (case lookup ident s of
        (None, s1) \<Rightarrow> Some s1
      | (Some lhs, s1) \<Rightarrow>
          (case skind (esym lhs) of
             Procedure \<Rightarrow> callStatement n lvl lhs s1
           | Function \<Rightarrow> assignStatement n lvl lhs False s1
           | Variable \<Rightarrow> assignStatement n lvl lhs False s1
           | Constant \<Rightarrow> Some (error [Lit ''Can not assign to a constant'', Str (ename lhs)] s1)
           | Type \<Rightarrow>
               Some (error [Lit ''expected variable, function return ref, or procedure call, got'',
                            Str (ename lhs)] s1)))"

text \<open>
  The loop of \<^verbatim>\<open>PComp::writeStmt\<close> over the expression tuples
  \<open>expr [ ':' width [ ':' precision ]]\<close>. The message stream \<^verbatim>\<open>oss\<close> is a local of
  \<^verbatim>\<open>writeStmt\<close> that is never cleared, so a later message repeats the earlier ones; the
  second message streams the class of the width again.
\<close>

fun writeArgs :: "nat \<Rightarrow> int \<Rightarrow> Diag \<Rightarrow> nat \<Rightarrow> PComp \<Rightarrow> (nat \<times> PComp) option" where
  "writeArgs 0 lvl oss nargs s = None"
| "writeArgs (Suc n) lvl oss nargs s =
     do {
       (expr, s1) \<leftarrow> expression n lvl s;
       (oss', s2) \<leftarrow>
         (if acc TkColon s1 then
            do {
              (width, s3) \<leftarrow> expression n lvl (adv TkColon s1);
              w \<leftarrow> width;
              let oss1 = (if tclass w \<noteq> Integer
                          then oss @ [Lit ''expeced integer width parameter, got: '', Cls (tclass w)]
                          else oss);
              let s4 = (if tclass w \<noteq> Integer then error oss1 s3 else s3);
              if acc TkColon s4 then
                do {
                  (prec, s5) \<leftarrow> expression n lvl (adv TkColon s4);
                  p \<leftarrow> prec;
                  let oss2 = (if tclass p \<noteq> Integer
                              then oss1 @ [Lit ''expeced integer width parameter, got: '', Cls (tclass w)]
                              else oss1);
                  Some (oss2, if tclass p \<noteq> Integer then error oss2 s5 else s5)
                }
              else Some (oss1, emitI PUSH 0 0 s4)
            }
          else Some (oss, emitI PUSH 0 0 (emitI PUSH 0 0 s1)));
       if acc TkComma s2 then writeArgs n lvl oss' (nargs + 1) (adv TkComma s2)
       else Some (nargs + 1, s2)
     }"

text \<open>
  \<^verbatim>\<open>PComp::writeStmt\<close>: the parameters of write and writeln, up to the final opcode.
\<close>

definition writeStmt :: "nat \<Rightarrow> int \<Rightarrow> PComp \<Rightarrow> PComp option" where
  "writeStmt n lvl s =
     (if acc TkOpenParen s then
        do {
          (nargs, s1) \<leftarrow> writeArgs n lvl [] 0 (adv TkOpenParen s);
          Some (emitI PUSH 0 (int nargs) (expectS TkCloseParen s1))
        }
      else Some (emitI PUSH 0 0 s))"

definition writeStatement :: "nat \<Rightarrow> int \<Rightarrow> PComp \<Rightarrow> PComp option" where
  "writeStatement n lvl s = do { s1 \<leftarrow> writeStmt n lvl s; Some (emit0 WRITE s1) }"

definition writeLnStatement :: "nat \<Rightarrow> int \<Rightarrow> PComp \<Rightarrow> PComp option" where
  "writeLnStatement n lvl s = do { s1 \<leftarrow> writeStmt n lvl s; Some (emit0 WRITELN s1) }"

text \<open>\<^verbatim>\<open>PComp::statementNew\<close>: \<open>new(identifier)\<close>; the token \<open>new\<close> has been consumed.\<close>

definition statementNew :: "nat \<Rightarrow> int \<Rightarrow> PComp \<Rightarrow> PComp option" where
  "statementNew n lvl s =
     (let s1 = expectS TkOpenParen s; ident = string_value (cur s1) in
      case expect TkIdentifier True s1 of
        (True, s2) \<Rightarrow>
          do {
            (tdesc, s3) \<leftarrow>
              (case lookup ident s2 of
                 (None, s3) \<Rightarrow> Some (Some intDesc, s3)
               | (Some it, s3) \<Rightarrow> variable n lvl it s3);
            t \<leftarrow> tdesc;
            let s4 = (if tclass t \<noteq> Pointer
                      then error [Lit ''expected a pointer, got '', Cls (tclass t)] s3 else s3);
            Some (expectS TkCloseParen
                    (emitI ASSIGN 0 1 (emit0 NEW (emitI PUSH 0 (int (tsize t)) s4))))
          }
      | (False, s2) \<Rightarrow> Some s2)"

text \<open>\<^verbatim>\<open>PComp::statementProcs\<close>: write, writeln, new and dispose; anything else is no statement.\<close>

definition statementProcs :: "nat \<Rightarrow> int \<Rightarrow> PComp \<Rightarrow> PComp option" where
  "statementProcs n lvl s =
     (if acc TkWrite s then writeStatement n lvl (adv TkWrite s)
      else if acc TkWriteln s then writeLnStatement n lvl (adv TkWriteln s)
      else if acc TkNew s then statementNew n lvl (adv TkNew s)
      else if acc TkDispose s then
        do {
          (tdesc, s1) \<leftarrow> expression n lvl (expectS TkOpenParen (adv TkDispose s));
          t \<leftarrow> tdesc;
          let s2 = (if tclass t \<noteq> Pointer
                    then error [Lit ''expected a pointer, got '', Cls (tclass t)] s1 else s1);
          Some (expectS TkCloseParen (emit0 DISPOSE s2))
        }
      else Some s)"

text \<open>
  The statements that contain statements: \<^verbatim>\<open>statement\<close>, \<^verbatim>\<open>statementList\<close>,
  \<^verbatim>\<open>ifStatement\<close>, \<^verbatim>\<open>whileStatement\<close>, \<^verbatim>\<open>repeateStatement\<close> and \<^verbatim>\<open>forStatement\<close>.
\<close>

function (sequential)
  statement :: "nat \<Rightarrow> int \<Rightarrow> PComp \<Rightarrow> PComp option" and
  statementList :: "nat \<Rightarrow> int \<Rightarrow> PComp \<Rightarrow> PComp option" and
  ifStatement :: "nat \<Rightarrow> int \<Rightarrow> PComp \<Rightarrow> PComp option" and
  whileStatement :: "nat \<Rightarrow> int \<Rightarrow> PComp \<Rightarrow> PComp option" and
  repeateStatement :: "nat \<Rightarrow> int \<Rightarrow> PComp \<Rightarrow> PComp option" and
  forStatement :: "nat \<Rightarrow> int \<Rightarrow> PComp \<Rightarrow> PComp option"
where
  "statement 0 lvl s = None"
| "statement (Suc n) lvl s =
     (if peek TkIdentifier s then identStatement n lvl (string_value (cur s)) (nextToken s)
      else if acc TkBegin s then
        do { s1 \<leftarrow> statementList n lvl (adv TkBegin s); Some (expectS TkEnd s1) }
      else if acc TkIf s then ifStatement n lvl (adv TkIf s)
      else if acc TkWhile s then whileStatement n lvl (adv TkWhile s)
      else if acc TkRepeat s then repeateStatement n lvl (adv TkRepeat s)
      else if acc TkFor s then forStatement n lvl (adv TkFor s)
      else statementProcs n lvl s)"
| "statementList 0 lvl s = None"
| "statementList (Suc n) lvl s =
     do {
       s1 \<leftarrow> statement n lvl s;
       if acc TkSemiColon s1 then statementList n lvl (adv TkSemiColon s1) else Some s1
     }"
| "ifStatement 0 lvl s = None"
| "ifStatement (Suc n) lvl s =
     do {
       (ty, s1) \<leftarrow> expression n lvl s;
       let (jmp_pc, s2) = emit JNEQ 0 (IntegerDatum 0) s1;
       let s3 = expectS TkThen s2;
       s4 \<leftarrow> statement n lvl s3;
       let (Else, s5) = accept TkElse True s4;
       let (else_pc, s6) = (if Else then emit JUMP 0 (IntegerDatum 0) s5 else (0, s5));
       s7 \<leftarrow> patch jmp_pc (length (code s6)) s6;
       if Else then
         do { s8 \<leftarrow> statement n lvl s7; patch else_pc (length (code s8)) s8 }
       else Some s7
     }"
| "whileStatement 0 lvl s = None"
| "whileStatement (Suc n) lvl s =
     do {
       let cond_pc = length (code s);
       (ty, s1) \<leftarrow> expression n lvl s;
       let (jmp_pc, s2) = emit JNEQ 0 (IntegerDatum 0) s1;
       let s3 = expectS TkDo s2;
       s4 \<leftarrow> statement n lvl s3;
       let s5 = emitI JUMP 0 (int cond_pc) s4;
       patch jmp_pc (length (code s5)) s5
     }"
| "repeateStatement 0 lvl s = None"
| "repeateStatement (Suc n) lvl s =
     do {
       let loop_pc = length (code s);
       s1 \<leftarrow> statement n lvl s;
       let s2 = expectS TkUntil s1;
       (ty, s3) \<leftarrow> expression n lvl s2;
       Some (emitI JNEQ 0 (int loop_pc) s3)
     }"
| "forStatement 0 lvl s = None"
| "forStatement (Suc n) lvl s =
     (let s0 = snd (expect TkIdentifier False s);
          ident = string_value (cur s0);
          s1 = nextToken s0
      in case lookup ident s1 of
        (None, s2) \<Rightarrow> Some s2
      | (Some var, s2) \<Rightarrow>
          do {
            s3 \<leftarrow> assignStatement n lvl var True s2;
            let (inc, s4) = (if acc TkTo s3 then (1, adv TkTo s3) else (- 1, expectS TkDownTo s3));
            let cond_pc = length (code s4);
            let s5 = emitI EVAL 0 1 (emit0 DUP s4);
            (ty, s6) \<leftarrow> expression n lvl s5;
            let s7 = emit0 LTE s6;
            let (jmp_pc, s8) = emit JNEQ 0 (IntegerDatum 0) s7;
            let s9 = expectS TkDo s8;
            s10 \<leftarrow> statement n lvl s9;
            let s11 = emitI ASSIGN 0 1 (emit0 ADD (emitI PUSH 0 inc
                        (emitI EVAL 0 1 (emit0 DUP (emit0 DUP s10)))));
            let s12 = emitI JUMP 0 (int cond_pc) s11;
            let (pop_pc, s13) = emit POP 0 (IntegerDatum 1) s12;
            patch jmp_pc pop_pc s13
          })"
  by pat_completeness auto

termination
  by (relation "measure (case_sum (case_sum fst (case_sum fst fst))
                                  (case_sum fst (case_sum fst fst)))") auto

subsection \<open>Declarations\<close>

text \<open>
  Modelled from the spec: datum.h is absent. \<open>sign * value\<close> for a sign of 1 or -1,
  the comparison of two Datums by their numeric values, and \<^verbatim>\<open>Datum::integer()\<close>, which
  has a result only for an integer.
\<close>

fun scaleDatum :: "int \<Rightarrow> Datum \<Rightarrow> Datum" where
  "scaleDatum sign (IntegerDatum v) = IntegerDatum (sign * v)"
| "scaleDatum sign (RealDatum r) = RealDatum (of_int sign * r)"

fun numeric :: "Datum \<Rightarrow> real" where
  "numeric (IntegerDatum v) = of_int v"
| "numeric (RealDatum r) = r"

fun isIntegerDatum :: "Datum \<Rightarrow> bool" where
  "isIntegerDatum (IntegerDatum v) = True"
| "isIntegerDatum (RealDatum r) = False"

fun integerOf :: "Datum \<Rightarrow> int option" where
  "integerOf (IntegerDatum v) = Some v"
| "integerOf (RealDatum r) = None"

text \<open>Modelled from the spec: \<^verbatim>\<open>SubRange::span()\<close>, the number of values of the range.\<close>

definition span :: "SubRange \<Rightarrow> nat" where
  "span r = nat (maximum r - minimum r + 1)"

text \<open>
  Modelled from the spec: \<^verbatim>\<open>Compilier::oneOf\<close> is absent; it tells whether the current
  token is one of a set of kinds.
\<close>

definition oneOf :: "TokenKind list \<Rightarrow> PComp \<Rightarrow> bool" where
  "oneOf stops s = (current s \<in> set stops)"

text \<open>
  Modelled from the spec: \<^verbatim>\<open>Compilier::nameDecl\<close> is absent. It copies and consumes the
  identifier being declared, decorated with the prefix, and reports an identifier already
  defined at the same level.
\<close>

definition nameDecl :: "int \<Rightarrow> string \<Rightarrow> PComp \<Rightarrow> string \<times> PComp" where
  "nameDecl lvl prefix s =
     (let ident = (if prefix = [] then string_value (cur s)
                   else prefix @ ''.'' @ string_value (cur s))
      in case expect TkIdentifier True s of
        (True, s1) \<Rightarrow>
          (ident,
           if \<exists>e \<in> set (equal_range ident (symtbl s1)). slevel (esym e) = lvl
           then error [Lit ''previously was defined'', Str ident] s1 else s1)
      | (False, s1) \<Rightarrow> (ident, s1))"

text \<open>
  References and iterators to a symbol table entry that is written through
  (\<^verbatim>\<open>SymValue& val\<close>, \<^verbatim>\<open>it->second\<close>) are the identity of the entry. Reading or writing
  an entry that was erased is undefined behaviour.
\<close>

definition derefSym :: "nat \<Rightarrow> PComp \<Rightarrow> Entry option" where
  "derefSym h s = find (\<lambda>e. eid e = h) (symtbl s)"

definition updateSym :: "nat \<Rightarrow> (SymValue \<Rightarrow> SymValue) \<Rightarrow> PComp \<Rightarrow> PComp option" where
  "updateSym h f s =
     (if \<exists>e \<in> set (symtbl s). eid e = h
      then Some (s\<lparr>symtbl := map (\<lambda>e. if eid e = h then e\<lparr>esym := f (esym e)\<rparr> else e) (symtbl s)\<rparr>)
      else None)"

text \<open>\<^verbatim>\<open>PComp::constExpr\<close>: \<open>[ + | - ] number | (const) identifier\<close>.\<close>

definition constExpr :: "PComp \<Rightarrow> (bool \<times> Datum) \<times> PComp" where
  "constExpr s =
     (let (sign, s1) = (if acc TkAdd s then (1, adv TkAdd s)
                        else if acc TkSubtract s then (- 1, adv TkSubtract s)
                        else (1, s))
      in if peek TkIntegerNum s1
           then ((True, IntegerDatum (sign * integer_value (cur s1))), nextToken s1)
         else if peek TkRealNum s1
           then ((True, RealDatum (of_int sign * real_value (cur s1))), nextToken s1)
         else if peek TkIdentifier s1 then
           (let ident = string_value (cur s1); s2 = expectS TkIdentifier s1 in
            case lookup ident s2 of
              (None, s3) \<Rightarrow> ((True, IntegerDatum 0), s3)
            | (Some it, s3) \<Rightarrow>
                if skind (esym it) = Constant
                then ((True, scaleDatum sign (svalue (esym it))), s3)
                else ((True, IntegerDatum 0),
                      error [Lit ''Identifier is not a constant, variable or function'',
                             Str (ename it)] s3))
         else ((False, IntegerDatum 0), s1))"

text \<open>\<^verbatim>\<open>PComp::identifierList\<close>: \<open>identifier { ',' identifier }\<close>.\<close>

fun identifierList :: "nat \<Rightarrow> int \<Rightarrow> string \<Rightarrow> PComp \<Rightarrow> (string list \<times> PComp) option" where
  "identifierList 0 lvl prefix s = None"
| "identifierList (Suc n) lvl prefix s =
     (let (ident, s1) = nameDecl lvl prefix s in
      if acc TkComma s1 then
        do { (ids, s2) \<leftarrow> identifierList n lvl prefix (adv TkComma s1); Some (ident # ids, s2) }
      else Some ([ident], s1))"

text \<open>
  The loop of \<^verbatim>\<open>ordinalType\<close> over the identifiers of an enumeration: each is a constant
  of the enumeration type, numbered from 0.
\<close>

fun insertEnums :: "int \<Rightarrow> TypeDesc \<Rightarrow> int \<Rightarrow> string list \<Rightarrow> PComp \<Rightarrow> PComp" where
  "insertEnums lvl ty v [] s = s"
| "insertEnums lvl ty v (ident # ids) s =
     insertEnums lvl ty (v + 1) ids (insertS ident (makeConst lvl (IntegerDatum v) (Some ty)) s)"

text \<open>
  \<^verbatim>\<open>PComp::ordinalType\<close>: Boolean, Integer, Char, an enumeration or a sub-range. The
  enumeration's constants share the descriptor that \<^verbatim>\<open>type->fields(enums)\<close> completes in
  the end, so they are entered here with the completed descriptor. No constant expression
  at the start of a sub-range leaves the null descriptor.
\<close>

definition ordinalType :: "nat \<Rightarrow> int \<Rightarrow> PComp \<Rightarrow> (TDescPtr \<times> PComp) option" where
  "ordinalType n lvl s =
     (if acc TkBoolType s then Some (Some boolDesc, adv TkBoolType s)
      else if acc TkCharType s then Some (Some charDesc, adv TkCharType s)
      else if acc TkIntType s then Some (Some intDesc, adv TkIntType s)
      else if acc TkOpenParen s then
        do {
          (ids, s1) \<leftarrow> identifierList n lvl [] (adv TkOpenParen s);
          let r = SubRange 0 (if ids = [] then 0 else int (length ids) - 1);
          let s2 = expectS TkCloseParen s1;
          let ty = TypeDesc Enumeration 1 r None None (map (\<lambda>ident. (ident, Some intDesc)) ids);
          Some (Some ty, insertEnums lvl ty 0 ids s2)
        }
      else
        (let (minValue, s1) = constExpr s in
         if fst minValue then
           (let s2 = expectS TkEllipsis s1;
                (maxValue, s3) = constExpr s2;
                oss1 = (if \<not> fst maxValue
                        then [Lit ''expected constant expression, got: '', Tok (current s3)] else []);
                (maxV, s4) = (if \<not> fst maxValue then (snd minValue, error oss1 s3)
                              else (snd maxValue, s3));
                minV = snd minValue;
                oss2 = oss1 @ [Lit ''Minimum sub-range value ('', Dat minV, Lit '')'',
                               Lit '' is greater than the maximum value ('', Dat maxV, Lit '')''];
                oss3 = oss1 @ [Lit ''Both sub-range values must be ordinal types; '', Dat minV,
                               Lit '', '', Dat maxV];
                (lo, hi, s5) =
                  (if numeric minV > numeric maxV then (maxV, minV, error oss2 s4)
                   else if \<not> isIntegerDatum minV \<or> \<not> isIntegerDatum maxV
                     then (IntegerDatum 0, IntegerDatum 1, error oss3 s4)
                   else (minV, maxV, s4))
            in do {
              a \<leftarrow> integerOf lo;
              b \<leftarrow> integerOf hi;
              Some (Some (newIntDesc (SubRange a b)), s5)
            })
         else Some (None, s1)))"

text \<open>
  \<^verbatim>\<open>PComp::simpleType\<close>: a previously defined ordinal type, Real, or an ordinal type. For
  an undefined identifier the diagnostic dereferences \<^verbatim>\<open>symtbl.end()\<close>.
\<close>

definition simpleType :: "nat \<Rightarrow> int \<Rightarrow> PComp \<Rightarrow> (TDescPtr \<times> PComp) option" where
  "simpleType n lvl s =
     (if peek TkIdentifier s then
        (let ident = string_value (cur s); s1 = nextToken s in
         case lookup ident s1 of
           (None, s2) \<Rightarrow> None
         | (Some it, s2) \<Rightarrow>
             if skind (esym it) \<noteq> Type
             then Some (None, error [Lit ''expected type, got '', Str (ename it)] s2)
             else do {
               t \<leftarrow> stype (esym it);
               if \<not> isOrdinal t
               then Some (None, error [Lit ''expected ordinal type, got '', Str (ename it)] s2)
               else Some (stype (esym it), s2)
             })
      else if acc TkRealType s then Some (Some realDesc, adv TkRealType s)
      else ordinalType n lvl s)"

text \<open>\<^verbatim>\<open>PComp::simpleTypeList\<close>: \<open>simple-type { ',' simple-type }\<close>.\<close>

fun simpleTypeList :: "nat \<Rightarrow> int \<Rightarrow> PComp \<Rightarrow> (TDescPtr list \<times> PComp) option" where
  "simpleTypeList 0 lvl s = None"
| "simpleTypeList (Suc n) lvl s =
     do {
       (t, s1) \<leftarrow> simpleType n lvl s;
       if acc TkComma s1 then
         do { (ts, s2) \<leftarrow> simpleTypeList n lvl (adv TkComma s1); Some (t # ts, s2) }
       else Some ([t], s1)
     }"

text \<open>
  The loop of \<^verbatim>\<open>structuredType\<close> over the index types of an array. It keeps the descriptor
  made last (\<^verbatim>\<open>tdesc\<close>) and \<^verbatim>\<open>tp\<close>, which is null or the descriptor made last: a null
  \<^verbatim>\<open>tp\<close> becomes \<^verbatim>\<open>tdesc\<close>, any other becomes its own base, which is null.
\<close>

fun arrayDescs :: "TDescPtr list \<Rightarrow> TDescPtr \<Rightarrow> bool \<Rightarrow> (TDescPtr \<times> bool) option" where
  "arrayDescs [] tdesc tpNull = Some (tdesc, tpNull)"
| "arrayDescs (index # rest) tdesc tpNull =
     do {
       ix \<leftarrow> index;
       arrayDescs rest (Some (newArrayDesc (span (trange ix)) (trange ix) index None)) (\<not> tpNull)
     }"

text \<open>The sum of the sizes of the types of a list of fields.\<close>

fun sumSizes :: "(string \<times> TDescPtr) list \<Rightarrow> nat option" where
  "sumSizes [] = Some 0"
| "sumSizes ((nm, ty) # fs) = do { t \<leftarrow> ty; sm \<leftarrow> sumSizes fs; Some (tsize t + sm) }"

text \<open>
  The second loop of \<^verbatim>\<open>varDeclList\<close>: report every entry of the name at this level, then
  install the variable at the offset \<open>dx\<close>.
\<close>

fun redefined :: "int \<Rightarrow> string \<Rightarrow> Entry list \<Rightarrow> PComp \<Rightarrow> PComp" where
  "redefined lvl nm [] s = s"
| "redefined lvl nm (e # es) s =
     redefined lvl nm es
       (if slevel (esym e) = lvl then error [Lit ''previously defined'', Str nm] s else s)"

fun installVars :: "int \<Rightarrow> int \<Rightarrow> (string \<times> TDescPtr) list \<Rightarrow> PComp \<Rightarrow> PComp option" where
  "installVars lvl dx [] s = Some s"
| "installVars lvl dx ((nm, ty) # ids) s =
     do {
       let s1 = redefined lvl nm (equal_range nm (symtbl s)) s;
       let s2 = insertS nm (makeVar lvl dx ty) s1;
       t \<leftarrow> ty;
       installVars lvl (dx + int (tsize t)) ids s2
     }"

text \<open>The field names of \<^verbatim>\<open>fieldList\<close>, with the prefix up to the first period trimmed off.\<close>

definition trimPrefix :: "string \<Rightarrow> string" where
  "trimPrefix nm = (if CHR ''.'' \<in> set nm then tl (dropWhile (\<lambda>c. c \<noteq> CHR ''.'') nm) else nm)"

definition varStops :: "TokenKind list" where
  "varStops = [TkProcDecl, TkFuncDecl, TkBegin, TkCloseParen]"

text \<open>
  The productions of types and of variable declarations, which contain one another:
  \<^verbatim>\<open>type\<close>, \<^verbatim>\<open>structuredType\<close>, \<^verbatim>\<open>fieldList\<close>, \<^verbatim>\<open>varDeclList\<close> (with its first loop) and
  \<^verbatim>\<open>varDecl\<close>. The vector of identifiers that \<^verbatim>\<open>varDeclList\<close> and \<^verbatim>\<open>varDecl\<close> extend is
  passed and returned.
\<close>

function (sequential)
  typeProd :: "nat \<Rightarrow> int \<Rightarrow> string \<Rightarrow> PComp \<Rightarrow> (TDescPtr \<times> PComp) option" and
  structuredType :: "nat \<Rightarrow> int \<Rightarrow> string \<Rightarrow> PComp \<Rightarrow> (TDescPtr \<times> PComp) option" and
  fieldList :: "nat \<Rightarrow> int \<Rightarrow> string \<Rightarrow> (string \<times> TDescPtr) list \<Rightarrow> PComp
                  \<Rightarrow> ((string \<times> TDescPtr) list \<times> PComp) option" and
  varDeclList :: "nat \<Rightarrow> int \<Rightarrow> bool \<Rightarrow> string \<Rightarrow> (string \<times> TDescPtr) list \<Rightarrow> PComp
                  \<Rightarrow> ((string \<times> TDescPtr) list \<times> PComp) option" and
  varDeclLoop :: "nat \<Rightarrow> int \<Rightarrow> string \<Rightarrow> (string \<times> TDescPtr) list \<Rightarrow> PComp
                  \<Rightarrow> ((string \<times> TDescPtr) list \<times> PComp) option" and
  varDecl :: "nat \<Rightarrow> int \<Rightarrow> string \<Rightarrow> (string \<times> TDescPtr) list \<Rightarrow> PComp
                  \<Rightarrow> ((string \<times> TDescPtr) list \<times> PComp) option"
where
  "typeProd 0 lvl prefix s = None"
| "typeProd (Suc n) lvl prefix s =
     (if peek TkIdentifier s then
        (let ident = string_value (cur s); s1 = nextToken s in
         case lookup ident s1 of
           (None, s2) \<Rightarrow> Some (Some intDesc, error [Lit ''expected type, got '', Str ident] s2)
         | (Some it, s2) \<Rightarrow>
             if skind (esym it) \<noteq> Type
             then Some (Some intDesc, error [Lit ''expected type, got '', Str ident] s2)
             else Some (stype (esym it), s2))
      else if acc TkCaret s then
        do {
          (b, s1) \<leftarrow> typeProd n lvl prefix (adv TkCaret s);
          Some (Some (newPointerDesc b), s1)
        }
      else
        do {
          (tdesc, s1) \<leftarrow> structuredType n lvl prefix s;
          if tdesc \<noteq> None then Some (tdesc, s1) else simpleType n lvl s1
        })"
| "structuredType 0 lvl prefix s = None"
| "structuredType (Suc n) lvl prefix s =
     (if acc TkArray s then
        do {
          let s1 = expectS TkOpenBrkt (adv TkArray s);
          (indexes, s2) \<leftarrow> simpleTypeList n lvl s1;
          (tdesc, tpNull) \<leftarrow> arrayDescs indexes None True;
          let s3 = expectS TkOf (expectS TkCloseBrkt s2);
          (b, s4) \<leftarrow> typeProd n lvl [] s3;
          if tpNull then None
          else do {
            a \<leftarrow> tdesc;
            bt \<leftarrow> b;
            Some (Some (TypeDesc Array (tsize a * tsize bt) (trange a) (itype a) b []), s4)
          }
        }
      else if acc TkRecord s then
        do {
          (flds, s1) \<leftarrow> fieldList n lvl prefix [] (adv TkRecord s);
          sm \<leftarrow> sumSizes flds;
          Some (Some (newRcrdDesc sm flds), expectS TkEnd s1)
        }
      else Some (None, s))"
| "fieldList 0 lvl prefix flds s = None"
| "fieldList (Suc n) lvl prefix flds s =
     do {
       (flds', s1) \<leftarrow> varDeclList n lvl False prefix flds s;
       Some (map (\<lambda>(nm, ty). (trimPrefix nm, ty)) flds', s1)
     }"
| "varDeclList 0 lvl params prefix idents s = None"
| "varDeclList (Suc n) lvl params prefix idents s =
     do {
       (idents', s1) \<leftarrow> varDeclLoop n lvl prefix idents s;
       sm \<leftarrow> (if params then sumSizes idents' else Some 0);
       s2 \<leftarrow> installVars lvl (- int sm) idents' s1;
       Some (idents', s2)
     }"
| "varDeclLoop 0 lvl prefix idents s = None"
| "varDeclLoop (Suc n) lvl prefix idents s =
     (if oneOf varStops s then Some (idents, s)
      else
        do {
          (idents', s1) \<leftarrow> varDecl n lvl prefix idents s;
          if acc TkSemiColon s1 then varDeclLoop n lvl prefix idents' (adv TkSemiColon s1)
          else Some (idents', s1)
        })"
| "varDecl 0 lvl prefix idents s = None"
| "varDecl (Suc n) lvl prefix idents s =
     do {
       (ids, s1) \<leftarrow> identifierList n lvl prefix s;
       let s2 = expectS TkColon s1;
       (desc, s3) \<leftarrow> typeProd n lvl prefix s2;
       Some (idents @ map (\<lambda>ident. (ident, desc)) ids, s3)
     }"
  by pat_completeness auto

termination
  by (relation "measure (case_sum (case_sum fst (case_sum fst fst))
                                  (case_sum fst (case_sum fst fst)))") auto

text \<open>\<^verbatim>\<open>PComp::constDecl\<close>: \<open>ident = const-expr\<close>.\<close>

definition constDecl :: "int \<Rightarrow> PComp \<Rightarrow> PComp" where
  "constDecl lvl s =
     (let (ident, s1) = nameDecl lvl [] s;
          s2 = expectS TkEQU s1;
          (v, s3) = constExpr s2;
          s4 = (if \<not> fst v
                then error [Lit ''expected a const-expression, got:'', Str (string_value (cur s3))] s3
                else s3);
          ty = (if isIntegerDatum (snd v) then intDesc else realDesc)
      in insertS ident (makeConst lvl (snd v) (Some ty)) s4)"

definition constStops :: "TokenKind list" where
  "constStops = [TkTypeDecl, TkVarDecl, TkProcDecl, TkFuncDecl, TkBegin]"

fun constDeclLoop :: "nat \<Rightarrow> int \<Rightarrow> PComp \<Rightarrow> PComp option" where
  "constDeclLoop 0 lvl s = None"
| "constDeclLoop (Suc n) lvl s =
     (if oneOf constStops s then Some s
      else (let s1 = constDecl lvl s in
            if acc TkSemiColon s1 then constDeclLoop n lvl (adv TkSemiColon s1) else Some s1))"

text \<open>\<^verbatim>\<open>PComp::constDeclList\<close>: \<open>const const-decl { ; const-decl } ;\<close>.\<close>

definition constDeclList :: "nat \<Rightarrow> int \<Rightarrow> PComp \<Rightarrow> PComp option" where
  "constDeclList n lvl s =
     (if acc TkConsDecl s then constDeclLoop n lvl (adv TkConsDecl s) else Some s)"

text \<open>\<^verbatim>\<open>PComp::typeDecl\<close>: \<open>ident = type\<close>.\<close>

definition typeDecl :: "nat \<Rightarrow> int \<Rightarrow> PComp \<Rightarrow> PComp option" where
  "typeDecl n lvl s =
     (let (ident, s1) = nameDecl lvl [] s; s2 = expectS TkEQU s1 in
      do {
        (tdesc, s3) \<leftarrow> typeProd n lvl ident s2;
        Some (insertS ident (makeType lvl tdesc) s3)
      })"

definition typeStops :: "TokenKind list" where
  "typeStops = [TkVarDecl, TkProcDecl, TkFuncDecl, TkBegin]"

fun typeDeclLoop :: "nat \<Rightarrow> int \<Rightarrow> PComp \<Rightarrow> PComp option" where
  "typeDeclLoop 0 lvl s = None"
| "typeDeclLoop (Suc n) lvl s =
     (if oneOf typeStops s then Some s
      else do {
        s1 \<leftarrow> typeDecl n lvl s;
        if acc TkSemiColon s1 then typeDeclLoop n lvl (adv TkSemiColon s1) else Some s1
      })"

text \<open>\<^verbatim>\<open>PComp::typeDeclList\<close>: \<open>type type-decl { ; type-decl } ;\<close>.\<close>

definition typeDeclList :: "nat \<Rightarrow> int \<Rightarrow> PComp \<Rightarrow> PComp option" where
  "typeDeclList n lvl s =
     (if acc TkTypeDecl s then typeDeclLoop n lvl (adv TkTypeDecl s) else Some s)"

text \<open>
  \<^verbatim>\<open>PComp::varDeclBlock\<close>: the variables of a block; returns the number of Datums they
  take.
\<close>

definition varDeclBlock :: "nat \<Rightarrow> int \<Rightarrow> PComp \<Rightarrow> (int \<times> PComp) option" where
  "varDeclBlock n lvl s =
     do {
       (idents, s1) \<leftarrow>
         (if acc TkVarDecl s then varDeclList n lvl False [] [] (adv TkVarDecl s)
          else Some ([], s));
       sm \<leftarrow> sumSizes idents;
       Some (int sm, s1)
     }"

text \<open>
  \<^verbatim>\<open>PComp::subPrefixDecl\<close>: the name and the formal parameters of a subroutine. The
  parameters are declared at the level of the block that follows. Returns the
  subroutine's symbol table entry.
\<close>

definition subPrefixDecl :: "nat \<Rightarrow> int \<Rightarrow> SymKind \<Rightarrow> PComp \<Rightarrow> (nat \<times> PComp) option" where
  "subPrefixDecl n lvl k s =
     (let (ident, s1) = nameDecl lvl [] s;
          (it, s2) = insert_sym ident (makeSbr k lvl) s1
      in if acc TkOpenParen s2 then
           do {
             (idents, s3) \<leftarrow> varDeclList n (lvl + 1) True [] [] (adv TkOpenParen s2);
             let s4 = expectS TkCloseParen s3;
             s5 \<leftarrow> updateSym it (\<lambda>v. v\<lparr>sparams := sparams v @ map snd idents\<rparr>) s4;
             Some (it, s5)
           }
         else Some (it, s2))"

subsection \<open>Blocks and the program\<close>

text \<open>
  \<^verbatim>\<open>blockDecl\<close>, \<^verbatim>\<open>subDeclList\<close>, \<^verbatim>\<open>procDecl\<close> and \<^verbatim>\<open>funcDecl\<close>. \<^verbatim>\<open>blockDecl\<close> emits the
  block's prefix, \<^verbatim>\<open>ENTER\<close>, unless the block has no locals, and returns the entry point.
\<close>

function (sequential)
  blockDecl :: "nat \<Rightarrow> nat \<Rightarrow> int \<Rightarrow> PComp \<Rightarrow> (nat \<times> PComp) option" and
  subDeclList :: "nat \<Rightarrow> int \<Rightarrow> PComp \<Rightarrow> PComp option" and
  procDecl :: "nat \<Rightarrow> int \<Rightarrow> PComp \<Rightarrow> PComp option" and
  funcDecl :: "nat \<Rightarrow> int \<Rightarrow> PComp \<Rightarrow> PComp option"
where
  "blockDecl 0 val lvl s = None"
| "blockDecl (Suc n) val lvl s =
     do {
       s1 \<leftarrow> constDeclList n lvl s;
       s2 \<leftarrow> typeDeclList n lvl s1;
       (dx, s3) \<leftarrow> varDeclBlock n lvl s2;
       s4 \<leftarrow> subDeclList n lvl s3;
       let (addr, s5) = (if dx > 0 then emit ENTER 0 (IntegerDatum dx) s4
                         else (length (code s4), s4));
       s6 \<leftarrow> updateSym val (\<lambda>v. v\<lparr>svalue := IntegerDatum (int addr)\<rparr>) s5;
       s7 \<leftarrow> (case expect TkBegin True s6 of
                (True, s') \<Rightarrow> do { s'' \<leftarrow> statementList n lvl s'; Some (expectS TkEnd s'') }
              | (False, s') \<Rightarrow> Some s');
       v \<leftarrow> derefSym val s7;
       let sz = int (length (sparams (esym v)));
       let s8 = (if skind (esym v) = Function then emitI RETF 0 sz s7 else emitI RET 0 sz s7);
       Some (addr, purge lvl s8)
     }"
| "subDeclList 0 lvl s = None"
| "subDeclList (Suc n) lvl s =
     (if acc TkProcDecl s then
        do { s1 \<leftarrow> procDecl n lvl (adv TkProcDecl s); subDeclList n lvl s1 }
      else if acc TkFuncDecl s then
        do { s1 \<leftarrow> funcDecl n lvl (adv TkFuncDecl s); subDeclList n lvl s1 }
      else Some s)"
| "procDecl 0 lvl s = None"
| "procDecl (Suc n) lvl s =
     do {
       (val, s1) \<leftarrow> subPrefixDecl n lvl Procedure s;
       let s2 = expectS TkSemiColon s1;
       (addr, s3) \<leftarrow> blockDecl n val (lvl + 1) s2;
       Some (expectS TkSemiColon s3)
     }"
| "funcDecl 0 lvl s = None"
| "funcDecl (Suc n) lvl s =
     do {
       (val, s1) \<leftarrow> subPrefixDecl n lvl Function s;
       let s2 = expectS TkColon s1;
       (ty, s3) \<leftarrow> typeProd n lvl [] s2;
       s4 \<leftarrow> updateSym val (\<lambda>v. v\<lparr>stype := ty\<rparr>) s3;
       let s5 = expectS TkSemiColon s4;
       (addr, s6) \<leftarrow> blockDecl n val (lvl + 1) s5;
       Some (expectS TkSemiColon s6)
     }"
  by pat_completeness auto

termination
  by (relation "measure (case_sum (case_sum fst fst) (case_sum fst fst))") auto

text \<open>
  \<^verbatim>\<open>PComp::progDecl\<close>: the program heading, a call to the main block followed by a halt,
  and the main block; the call is patched with the block's entry point.
\<close>

definition progDecl :: "nat \<Rightarrow> int \<Rightarrow> PComp \<Rightarrow> PComp option" where
  "progDecl n lvl s =
     (let s1 = nextToken s; s2 = expectS TkProgDecl s1 in
      do {
        (val, s3) \<leftarrow> subPrefixDecl n lvl Procedure s2;
        let s4 = expectS TkSemiColon s3;
        let (call_pc, s5) = emit CALL lvl (IntegerDatum 0) s4;
        let s6 = emit0 HALT s5;
        (addr, s7) \<leftarrow> blockDecl n val lvl s6;
        s8 \<leftarrow> patch call_pc addr s7;
        Some (expectS TkPeriod s8)
      })"

text \<open>\<^verbatim>\<open>PComp::run\<close>.\<close>

definition run :: "nat \<Rightarrow> PComp \<Rightarrow> PComp option" where
  "run n s = progDecl n 0 s"

text \<open>
  The driver's \<^verbatim>\<open>comp(inputFile, code, consts, verbose)\<close> on a compiler just constructed:
  the code goes to the vector the driver passes, which is empty, and the tokens are those of
  the source file. The result is the compiler after \<^verbatim>\<open>run\<close>, with the emitted code and the
  error count.
\<close>

definition compile :: "nat \<Rightarrow> Token list \<Rightarrow> PComp option" where
  "compile n toks = run n (PComp_new\<lparr>pending := toks, code := []\<rparr>)"

subsection \<open>The binary operators\<close>





subsection \<open>What a production leaves alone\<close>

text \<open>
  The part of the error count that no diagnostic accounts for. \<^verbatim>\<open>error\<close> is the only
  function that writes a diagnostic or changes the count.
\<close>

definition uncounted :: "PComp \<Rightarrow> 32 word" where
  "uncounted s = nErrors s - of_nat (length (diags s))"

text \<open>
  \<open>ext s s'\<close>: the compiler \<open>s'\<close> has the code of \<open>s\<close>, followed by more, and its error
  count has grown by the number of diagnostics written since. \<open>keep s s'\<close>: no code was
  emitted at all.
\<close>

definition ext :: "PComp \<Rightarrow> PComp \<Rightarrow> bool" where
  "ext s s' = ((\<exists>xs. code s' = code s @ xs) \<and> uncounted s' = uncounted s)"

definition keep :: "PComp \<Rightarrow> PComp \<Rightarrow> bool" where
  "keep s s' = (code s' = code s \<and> uncounted s' = uncounted s)"

definition exprExt :: "nat \<Rightarrow> bool" where
  "exprExt n =
     ((\<forall>lvl i s r s'. identFactor n lvl i s = Some (r, s') \<longrightarrow> ext s s')
      \<and> (\<forall>lvl s r s'. parenExpr n lvl s = Some (r, s') \<longrightarrow> ext s s')
      \<and> (\<forall>lvl s r s'. builtInFunc n lvl s = Some (r, s') \<longrightarrow> ext s s')
      \<and> (\<forall>lvl s r s'. factor n lvl s = Some (r, s') \<longrightarrow> ext s s')
      \<and> (\<forall>lvl lhs s r s'. termLoop n lvl lhs s = Some (r, s') \<longrightarrow> ext s s')
      \<and> (\<forall>lvl s r s'. termProd n lvl s = Some (r, s') \<longrightarrow> ext s s')
      \<and> (\<forall>lvl s r s'. unary n lvl s = Some (r, s') \<longrightarrow> ext s s')
      \<and> (\<forall>lvl lhs s r s'. simpleExprLoop n lvl lhs s = Some (r, s') \<longrightarrow> ext s s')
      \<and> (\<forall>lvl s r s'. simpleExpr n lvl s = Some (r, s') \<longrightarrow> ext s s')
      \<and> (\<forall>lvl lhs s r s'. expressionLoop n lvl lhs s = Some (r, s') \<longrightarrow> ext s s')
      \<and> (\<forall>lvl s r s'. expression n lvl s = Some (r, s') \<longrightarrow> ext s s')
      \<and> (\<forall>lvl s r s'. expressionList n lvl s = Some (r, s') \<longrightarrow> ext s s')
      \<and> (\<forall>lvl ps k s r s'. callParams n lvl ps k s = Some (r, s') \<longrightarrow> ext s s')
      \<and> (\<forall>lvl it s s'. callStatement n lvl it s = Some s' \<longrightarrow> ext s s')
      \<and> (\<forall>lvl it ty s r s'. varArray n lvl it ty s = Some (r, s') \<longrightarrow> ext s s')
      \<and> (\<forall>lvl it ty s r s'. variableLoop n lvl it ty s = Some (r, s') \<longrightarrow> ext s s')
      \<and> (\<forall>lvl it s r s'. variable n lvl it s = Some (r, s') \<longrightarrow> ext s s'))"

definition stmtExt :: "nat \<Rightarrow> bool" where
  "stmtExt n =
     ((\<forall>lvl s s'. statement n lvl s = Some s' \<longrightarrow> ext s s')
      \<and> (\<forall>lvl s s'. statementList n lvl s = Some s' \<longrightarrow> ext s s')
      \<and> (\<forall>lvl s s'. ifStatement n lvl s = Some s' \<longrightarrow> ext s s')
      \<and> (\<forall>lvl s s'. whileStatement n lvl s = Some s' \<longrightarrow> ext s s')
      \<and> (\<forall>lvl s s'. repeateStatement n lvl s = Some s' \<longrightarrow> ext s s')
      \<and> (\<forall>lvl s s'. forStatement n lvl s = Some s' \<longrightarrow> ext s s'))"

definition typeKeep :: "nat \<Rightarrow> bool" where
  "typeKeep n =
     ((\<forall>l p s r s'. typeProd n l p s = Some (r, s') \<longrightarrow> keep s s')
      \<and> (\<forall>l p s r s'. structuredType n l p s = Some (r, s') \<longrightarrow> keep s s')
      \<and> (\<forall>l p f s r s'. fieldList n l p f s = Some (r, s') \<longrightarrow> keep s s')
      \<and> (\<forall>l b p f s r s'. varDeclList n l b p f s = Some (r, s') \<longrightarrow> keep s s')
      \<and> (\<forall>l p f s r s'. varDeclLoop n l p f s = Some (r, s') \<longrightarrow> keep s s')
      \<and> (\<forall>l p f s r s'. varDecl n l p f s = Some (r, s') \<longrightarrow> keep s s'))"

definition blockExt :: "nat \<Rightarrow> bool" where
  "blockExt n =
     ((\<forall>v l s r s'. blockDecl n v l s = Some (r, s') \<longrightarrow> ext s s')
      \<and> (\<forall>l s s'. subDeclList n l s = Some s' \<longrightarrow> ext s s')
      \<and> (\<forall>l s s'. procDecl n l s = Some s' \<longrightarrow> ext s s')
      \<and> (\<forall>l s s'. funcDecl n l s = Some s' \<longrightarrow> ext s s'))"

subsection \<open>The parts of blockDecl and progDecl\<close>

text \<open>
  \<^verbatim>\<open>blockDecl\<close> in three parts: the declarations, which return the number of Datums of the
  block's locals; the block's prefix, which returns the entry point; and the rest, from
  \<^verbatim>\<open>val.value(addr)\<close> to \<^verbatim>\<open>purge(level)\<close>.
\<close>

definition blockDecls :: "nat \<Rightarrow> int \<Rightarrow> PComp \<Rightarrow> (int \<times> PComp) option" where
  "blockDecls n lvl s =
     do {
       s1 \<leftarrow> constDeclList n lvl s;
       s2 \<leftarrow> typeDeclList n lvl s1;
       (dx, s3) \<leftarrow> varDeclBlock n lvl s2;
       s4 \<leftarrow> subDeclList n lvl s3;
       Some (dx, s4)
     }"

definition blockPrefix :: "int \<Rightarrow> PComp \<Rightarrow> nat \<times> PComp" where
  "blockPrefix dx s =
     (if dx > 0 then emit ENTER 0 (IntegerDatum dx) s else (length (code s), s))"

definition blockBody :: "nat \<Rightarrow> nat \<Rightarrow> int \<Rightarrow> nat \<Rightarrow> PComp \<Rightarrow> PComp option" where
  "blockBody n val lvl entry s =
     do {
       s6 \<leftarrow> updateSym val (\<lambda>v. v\<lparr>svalue := IntegerDatum (int entry)\<rparr>) s;
       s7 \<leftarrow> (case expect TkBegin True s6 of
                (True, s') \<Rightarrow> do { s'' \<leftarrow> statementList n lvl s'; Some (expectS TkEnd s'') }
              | (False, s') \<Rightarrow> Some s');
       v \<leftarrow> derefSym val s7;
       let sz = int (length (sparams (esym v)));
       let s8 = (if skind (esym v) = Function then emitI RETF 0 sz s7 else emitI RET 0 sz s7);
       Some (purge lvl s8)
     }"

text \<open>
  The first part of \<^verbatim>\<open>progDecl\<close>, up to the halt: the program's symbol table entry, the
  address of the call, and the compiler in which the main block is compiled.
\<close>

definition progHeading :: "nat \<Rightarrow> int \<Rightarrow> PComp \<Rightarrow> (nat \<times> nat \<times> PComp) option" where
  "progHeading n lvl s =
     (let s1 = nextToken s; s2 = expectS TkProgDecl s1 in
      do {
        (val, s3) \<leftarrow> subPrefixDecl n lvl Procedure s2;
        let s4 = expectS TkSemiColon s3;
        let (call_pc, s5) = emit CALL lvl (IntegerDatum 0) s4;
        Some (val, call_pc, emit0 HALT s5)
      })"

text \<open>The compiler the driver starts on a source file.\<close>

definition start :: "Token list \<Rightarrow> PComp" where
  "start toks = PComp_new\<lparr>pending := toks, code := []\<rparr>"

subsection \<open>The P machine's limit checks and assignment\<close>

text \<open>The interpreter's results: \<^verbatim>\<open>PInterp::Result\<close> (pinterp.h).\<close>

datatype Result =
    success | divideByZero | badFetch | badDataType | unknownInstr
  | stackOverflow | stackUnderflow | freeStoreError | outOfRange | halted

text \<open>
  Of the machine's registers (pinterp.h), the data segment and the top of stack register,
  which indexes the top Datum.
\<close>

record PInterp =
  stack :: "Datum list"
  sp :: nat

text \<open>
  Modelled from the spec: pinterp.cc is absent. \<^verbatim>\<open>LLIMIT k\<close> is an out-of-range error if
  the top of stack is less than \<open>k\<close>, \<^verbatim>\<open>ULIMIT k\<close> if it is greater; both leave the top of
  stack in place (instr.h, spec 4.3). \<^verbatim>\<open>ASSIGN n\<close>: the top \<open>n\<close> Datums are the value, below
  them sits the destination address; the value is copied to \<open>stack[a..a+n)\<close>, and value
  and address are discarded. Every stack access is range-checked.
\<close>

definition LLIMIT_op :: "Datum \<Rightarrow> PInterp \<Rightarrow> Result" where
  "LLIMIT_op k m =
     (if sp m < length (stack m)
      then (if numeric (stack m ! sp m) < numeric k then outOfRange else success)
      else stackUnderflow)"

definition ULIMIT_op :: "Datum \<Rightarrow> PInterp \<Rightarrow> Result" where
  "ULIMIT_op k m =
     (if sp m < length (stack m)
      then (if numeric (stack m ! sp m) > numeric k then outOfRange else success)
      else stackUnderflow)"

definition ASSIGN_op :: "nat \<Rightarrow> PInterp \<Rightarrow> Result \<times> PInterp" where
  "ASSIGN_op n m =
     (if sp m < n \<or> length (stack m) \<le> sp m then (stackUnderflow, m)
      else case stack m ! (sp m - n) of
        RealDatum r \<Rightarrow> (badDataType, m)
      | IntegerDatum a \<Rightarrow>
          if a < 0 \<or> int (length (stack m)) < a + int n then (stackOverflow, m)
          else (success,
                m\<lparr>stack := take (nat a) (stack m) @ take n (drop (sp m - n + 1) (stack m))
                              @ drop (nat a + n) (stack m),
                   sp := sp m - n - 1\<rparr>))"

text \<open>
  One instruction of the three, and a sequence of them, which stops at the first result
  that is not \<open>success\<close>. Other instructions are not modelled.
\<close>

definition exec :: "Instr \<Rightarrow> PInterp \<Rightarrow> (Result \<times> PInterp) option" where
  "exec i m =
     (if op i = LLIMIT then Some (LLIMIT_op (addr i) m, m)
      else if op i = ULIMIT then Some (ULIMIT_op (addr i) m, m)
      else if op i = ASSIGN then
        (case addr i of
           IntegerDatum n \<Rightarrow> if 0 \<le> n then Some (ASSIGN_op (nat n) m) else None
         | RealDatum r \<Rightarrow> None)
      else None)"

fun runSeq :: "Instr list \<Rightarrow> PInterp \<Rightarrow> (Result \<times> PInterp) option" where
  "runSeq [] m = Some (success, m)"
| "runSeq (i # is) m =
     (case exec i m of
        None \<Rightarrow> None
      | Some (r, m') \<Rightarrow> if r = success then runSeq is m' else Some (r, m'))"

subsection \<open>Source texts as token streams\<close>

text \<open>The tokens a tokenizer delivers: keywords and punctuation, identifiers and numbers.\<close>

definition tk :: "TokenKind \<Rightarrow> Token" where
  "tk k = mkToken k"

definition ident :: "string \<Rightarrow> Token" where
  "ident n = \<lparr>kind = TkIdentifier, string_value = n, integer_value = 0, real_value = 0\<rparr>"

definition num :: "int \<Rightarrow> Token" where
  "num n = \<lparr>kind = TkIntegerNum, string_value = [], integer_value = n, real_value = 0\<rparr>"

definition realnum :: "real \<Rightarrow> Token" where
  "realnum r = \<lparr>kind = TkRealNum, string_value = [], integer_value = 0, real_value = r\<rparr>"

text \<open>A compiler that is about to compile the tokens, the first of them fetched.\<close>

definition reading :: "Token list \<Rightarrow> PComp \<Rightarrow> PComp" where
  "reading toks s = nextToken (s\<lparr>pending := toks\<rparr>)"

text \<open>
  A compiler in the main block of a program that has declared
  \<open>var i : 1..5; n : integer; r : real; procedure q(a : integer); function f : integer;\<close>
\<close>

definition inMain :: PComp where
  "inMain =
     insertS ''f'' ((makeSbr Function 0)\<lparr>svalue := IntegerDatum 4, stype := Some intDesc\<rparr>)
     (insertS ''q'' ((makeSbr Procedure 0)\<lparr>svalue := IntegerDatum 2, sparams := [Some intDesc]\<rparr>)
     (insertS ''r'' (makeVar 0 2 (Some realDesc))
     (insertS ''n'' (makeVar 0 1 (Some intDesc))
     (insertS ''i'' (makeVar 0 0 (Some (newIntDesc (SubRange 1 5)))) PComp_new))))"

text \<open>\<open>program p; var i : 1..5; begin i := 3 end.\<close>\<close>

definition progSubrange :: "Token list" where
  "progSubrange =
     [tk TkProgDecl, ident ''p'', tk TkSemiColon,
      tk TkVarDecl, ident ''i'', tk TkColon, num 1, tk TkEllipsis, num 5, tk TkSemiColon,
      tk TkBegin, ident ''i'', tk TkAssign, num 3, tk TkEnd, tk TkPeriod]"

text \<open>\<open>program p; procedure q; begin end; begin q end.\<close>\<close>

definition progNoLocals :: "Token list" where
  "progNoLocals =
     [tk TkProgDecl, ident ''p'', tk TkSemiColon,
      tk TkProcDecl, ident ''q'', tk TkSemiColon, tk TkBegin, tk TkEnd, tk TkSemiColon,
      tk TkBegin, ident ''q'', tk TkEnd, tk TkPeriod]"

text \<open>\<open>program p; var n : integer; begin n := 1.5 end.\<close>\<close>

definition progRounding :: "Token list" where
  "progRounding =
     [tk TkProgDecl, ident ''p'', tk TkSemiColon,
      tk TkVarDecl, ident ''n'', tk TkColon, ident ''integer'', tk TkSemiColon,
      tk TkBegin, ident ''n'', tk TkAssign, realnum (3 / 2), tk TkEnd, tk TkPeriod]"

section \<open>Properties\<close>

subsection \<open>What the helpers do to the compiler object\<close>

lemma code_emit0 [simp]: "code (emit0 x s) = code s @ [Instr x 0 (IntegerDatum 0)]"
  by (simp add: emit0_def emit_def)

lemma code_emitI [simp]: "code (emitI x l a s) = code s @ [Instr x (word_of_int l) (IntegerDatum a)]"
  by (simp add: emitI_def emit_def)

lemma code_error [simp]: "code (error d s) = code s"
  by (simp add: error_def)

subsection \<open>Code is only ever appended, and every error is counted\<close>

lemma bind_weak_cong: "m = m' \<Longrightarrow> Option.bind m f = Option.bind m' f"
  by simp

lemma extD: "ext s s' \<Longrightarrow> (\<exists>xs. code s' = code s @ xs) \<and> uncounted s' = uncounted s"
  by (simp add: ext_def)

lemma keepD: "keep s s' \<Longrightarrow> code s' = code s \<and> uncounted s' = uncounted s"
  by (simp add: keep_def)

lemma ext_refl [simp]: "ext s s"
  by (simp add: ext_def)

lemma ext_trans: "ext s s' \<Longrightarrow> ext s' s'' \<Longrightarrow> ext s s''"
  by (auto simp: ext_def)

lemma keep_ext: "keep s s' \<Longrightarrow> ext s s'"
  by (simp add: keep_def ext_def)

lemma uncounted_code_update [simp]: "uncounted (s\<lparr>code := c\<rparr>) = uncounted s"
  by (simp add: uncounted_def)

lemma uncounted_cur_update [simp]: "uncounted (s\<lparr>cur := c\<rparr>) = uncounted s"
  by (simp add: uncounted_def)

lemma uncounted_pending_update [simp]: "uncounted (s\<lparr>pending := c\<rparr>) = uncounted s"
  by (simp add: uncounted_def)

lemma uncounted_symtbl_update [simp]: "uncounted (s\<lparr>symtbl := c\<rparr>) = uncounted s"
  by (simp add: uncounted_def)

lemma uncounted_nextId_update [simp]: "uncounted (s\<lparr>nextId := c\<rparr>) = uncounted s"
  by (simp add: uncounted_def)

lemma uncounted_error [simp]: "uncounted (error d s) = uncounted s"
  by (simp add: uncounted_def error_def)

lemma uncounted_emit [simp]: "uncounted (snd (emit x l d s)) = uncounted s"
  by (simp add: emit_def)

lemma uncounted_emit0 [simp]: "uncounted (emit0 x s) = uncounted s"
  by (simp add: emit0_def)

lemma uncounted_emitI [simp]: "uncounted (emitI x l a s) = uncounted s"
  by (simp add: emitI_def)

lemma uncounted_nextToken [simp]: "uncounted (nextToken s) = uncounted s"
  by (simp add: nextToken_def split: list.splits)

lemma uncounted_accept [simp]: "uncounted (snd (accept k g s)) = uncounted s"
  by (simp add: accept_def)

lemma uncounted_expect [simp]: "uncounted (snd (expect k g s)) = uncounted s"
  by (simp add: expect_def accept_def)

lemma uncounted_lookup [simp]: "uncounted (snd (lookup n s)) = uncounted s"
  by (simp add: lookup_def split: list.splits)

lemma uncounted_emitVarRef [simp]: "uncounted (emitVarRef l v s) = uncounted s"
  by (simp add: emitVarRef_def)

lemma code_emit [simp]: "code (snd (emit x l d s)) = code s @ [Instr x (word_of_int l) d]"
  by (simp add: emit_def)

lemma fst_emit [simp]: "fst (emit x l d s) = length (code s)"
  by (simp add: emit_def)

lemma emitD:
  "emit x l d s = (pc, s') \<Longrightarrow>
     pc = length (code s) \<and> code s' = code s @ [Instr x (word_of_int l) d]
     \<and> uncounted s' = uncounted s"
  by (auto simp: ext_def emit_def)

lemma code_nextToken [simp]: "code (nextToken s) = code s"
  by (simp add: nextToken_def split: list.splits)

lemma code_accept [simp]: "code (snd (accept k g s)) = code s"
  by (simp add: accept_def)

lemma code_expect [simp]: "code (snd (expect k g s)) = code s"
  by (simp add: expect_def accept_def)

lemma code_lookup [simp]: "code (snd (lookup n s)) = code s"
  by (simp add: lookup_def split: list.splits)

lemma acceptD: "accept k g s = (b, s') \<Longrightarrow> code s' = code s \<and> uncounted s' = uncounted s"
  using code_accept [of k g s] uncounted_accept [of k g s] by simp

lemma expectD: "expect k g s = (b, s') \<Longrightarrow> code s' = code s \<and> uncounted s' = uncounted s"
  using code_expect [of k g s] uncounted_expect [of k g s] by simp

lemma lookupD: "lookup n s = (r, s') \<Longrightarrow> code s' = code s \<and> uncounted s' = uncounted s"
  using code_lookup [of n s] uncounted_lookup [of n s] by simp

lemma code_emitVarRef [simp]: "code (emitVarRef l v s) = code s @ [Instr PUSHVAR (word_of_int (l - slevel v)) (svalue v)]"
  by (simp add: emitVarRef_def)

lemma ext_pushChars: "ext s (pushChars cs s)"
proof (induction cs arbitrary: s)
  case Nil
  show ?case by simp
next
  case (Cons c cs)
  from Cons [of "emitI PUSH 0 (of_char c) s"] show ?case by (auto simp: ext_def)
qed

lemma ext_promote: "promote l r s = Some (t, s') \<Longrightarrow> ext s s'"
  by (auto simp: ext_def promote_def bind_eq_Some_conv split: if_splits)

lemma ext_assignPromote: "assignPromote l r s = Some s' \<Longrightarrow> ext s s'"
  by (auto simp: ext_def assignPromote_def bind_eq_Some_conv Let_def split: if_splits)

lemma ext_varSelector: "varSelector it ty s = Some (t, s') \<Longrightarrow> ext s s'"
  by (auto simp: ext_def varSelector_def bind_eq_Some_conv Let_def split: if_splits prod.splits bool.splits dest!: expectD)

lemma ext_varArrayIndexes:
  "varArrayIndexes ixs k a ty s = Some (t, s') \<Longrightarrow> ext s s'"
proof (induction ixs arbitrary: k a ty s)
  case Nil
  then show ?case by simp
next
  case (Cons index rest)
  from Cons.prems show ?case
    by (auto simp: ext_def bind_eq_Some_conv Let_def split: if_splits dest!: Cons.IH [THEN extD])
qed

lemmas exprExtD =
  exprExt_def [THEN iffD1, THEN conjunct1, rule_format, THEN extD, rotated]
  exprExt_def [THEN iffD1, THEN conjunct2, THEN conjunct1, rule_format, THEN extD, rotated]
  exprExt_def [THEN iffD1, THEN conjunct2, THEN conjunct2, THEN conjunct1, rule_format, THEN extD, rotated]
  exprExt_def [THEN iffD1, THEN conjunct2, THEN conjunct2, THEN conjunct2, THEN conjunct1, rule_format, THEN extD, rotated]
  exprExt_def [THEN iffD1, THEN conjunct2, THEN conjunct2, THEN conjunct2, THEN conjunct2, THEN conjunct1, rule_format, THEN extD, rotated]
  exprExt_def [THEN iffD1, THEN conjunct2, THEN conjunct2, THEN conjunct2, THEN conjunct2, THEN conjunct2, THEN conjunct1, rule_format, THEN extD, rotated]
  exprExt_def [THEN iffD1, THEN conjunct2, THEN conjunct2, THEN conjunct2, THEN conjunct2, THEN conjunct2, THEN conjunct2, THEN conjunct1, rule_format, THEN extD, rotated]
  exprExt_def [THEN iffD1, THEN conjunct2, THEN conjunct2, THEN conjunct2, THEN conjunct2, THEN conjunct2, THEN conjunct2, THEN conjunct2, THEN conjunct1, rule_format, THEN extD, rotated]
  exprExt_def [THEN iffD1, THEN conjunct2, THEN conjunct2, THEN conjunct2, THEN conjunct2, THEN conjunct2, THEN conjunct2, THEN conjunct2, THEN conjunct2, THEN conjunct1, rule_format, THEN extD, rotated]
  exprExt_def [THEN iffD1, THEN conjunct2, THEN conjunct2, THEN conjunct2, THEN conjunct2, THEN conjunct2, THEN conjunct2, THEN conjunct2, THEN conjunct2, THEN conjunct2, THEN conjunct1, rule_format, THEN extD, rotated]
  exprExt_def [THEN iffD1, THEN conjunct2, THEN conjunct2, THEN conjunct2, THEN conjunct2, THEN conjunct2, THEN conjunct2, THEN conjunct2, THEN conjunct2, THEN conjunct2, THEN conjunct2, THEN conjunct1, rule_format, THEN extD, rotated]
  exprExt_def [THEN iffD1, THEN conjunct2, THEN conjunct2, THEN conjunct2, THEN conjunct2, THEN conjunct2, THEN conjunct2, THEN conjunct2, THEN conjunct2, THEN conjunct2, THEN conjunct2, THEN conjunct2, THEN conjunct1, rule_format, THEN extD, rotated]
  exprExt_def [THEN iffD1, THEN conjunct2, THEN conjunct2, THEN conjunct2, THEN conjunct2, THEN conjunct2, THEN conjunct2, THEN conjunct2, THEN conjunct2, THEN conjunct2, THEN conjunct2, THEN conjunct2, THEN conjunct2, THEN conjunct1, rule_format, THEN extD, rotated]
  exprExt_def [THEN iffD1, THEN conjunct2, THEN conjunct2, THEN conjunct2, THEN conjunct2, THEN conjunct2, THEN conjunct2, THEN conjunct2, THEN conjunct2, THEN conjunct2, THEN conjunct2, THEN conjunct2, THEN conjunct2, THEN conjunct2, THEN conjunct1, rule_format, THEN extD, rotated]
  exprExt_def [THEN iffD1, THEN conjunct2, THEN conjunct2, THEN conjunct2, THEN conjunct2, THEN conjunct2, THEN conjunct2, THEN conjunct2, THEN conjunct2, THEN conjunct2, THEN conjunct2, THEN conjunct2, THEN conjunct2, THEN conjunct2, THEN conjunct2, THEN conjunct1, rule_format, THEN extD, rotated]
  exprExt_def [THEN iffD1, THEN conjunct2, THEN conjunct2, THEN conjunct2, THEN conjunct2, THEN conjunct2, THEN conjunct2, THEN conjunct2, THEN conjunct2, THEN conjunct2, THEN conjunct2, THEN conjunct2, THEN conjunct2, THEN conjunct2, THEN conjunct2, THEN conjunct2, THEN conjunct1, rule_format, THEN extD, rotated]
  exprExt_def [THEN iffD1, THEN conjunct2, THEN conjunct2, THEN conjunct2, THEN conjunct2, THEN conjunct2, THEN conjunct2, THEN conjunct2, THEN conjunct2, THEN conjunct2, THEN conjunct2, THEN conjunct2, THEN conjunct2, THEN conjunct2, THEN conjunct2, THEN conjunct2, THEN conjunct2, rule_format, THEN extD, rotated]

lemma identFactor_ext_step:
  assumes "exprExt n" "identFactor (Suc n) lvl i s = Some (r, s')"
  shows "ext s s'"
  using assms
  by (auto simp: ext_def bind_eq_Some_conv Let_def split: if_splits prod.splits option.splits SymKind.splits
        dest!: exprExtD lookupD)

lemma parenExpr_ext_step:
  assumes "exprExt n" "parenExpr (Suc n) lvl s = Some (r, s')"
  shows "ext s s'"
  using assms
  by (auto simp: ext_def bind_eq_Some_conv Let_def split: if_splits
        dest!: exprExtD ext_promote [THEN extD] ext_assignPromote [THEN extD] ext_varSelector [THEN extD] ext_varArrayIndexes [THEN extD])

lemma builtInFunc_ext_step:
  assumes "exprExt n" "builtInFunc (Suc n) lvl s = Some (r, s')"
  shows "ext s s'"
  using assms
  by (auto simp: ext_def bind_eq_Some_conv Let_def split: if_splits
        dest!: exprExtD ext_promote [THEN extD] ext_assignPromote [THEN extD] ext_varSelector [THEN extD] ext_varArrayIndexes [THEN extD])

lemma factor_ext_step:
  assumes "exprExt n" "factor (Suc n) lvl s = Some (r, s')"
  shows "ext s s'"
  using assms ext_pushChars [of "nextToken s" "string_value (cur s)", THEN extD]
  by (auto simp: ext_def bind_eq_Some_conv Let_def split: if_splits dest!: exprExtD)

lemma termLoop_ext_step:
  assumes "exprExt n" "termLoop (Suc n) lvl lhs s = Some (r, s')"
  shows "ext s s'"
  using assms
  by (auto simp: ext_def bind_eq_Some_conv Let_def split: if_splits
        dest!: exprExtD ext_promote [THEN extD] ext_assignPromote [THEN extD] ext_varSelector [THEN extD] ext_varArrayIndexes [THEN extD])

lemma termProd_ext_step:
  assumes "exprExt n" "termProd (Suc n) lvl s = Some (r, s')"
  shows "ext s s'"
  using assms
  by (auto simp: ext_def bind_eq_Some_conv Let_def split: if_splits
        dest!: exprExtD ext_promote [THEN extD] ext_assignPromote [THEN extD] ext_varSelector [THEN extD] ext_varArrayIndexes [THEN extD])

lemma unary_ext_step:
  assumes "exprExt n" "unary (Suc n) lvl s = Some (r, s')"
  shows "ext s s'"
  using assms
  by (auto simp: ext_def bind_eq_Some_conv Let_def split: if_splits
        dest!: exprExtD ext_promote [THEN extD] ext_assignPromote [THEN extD] ext_varSelector [THEN extD] ext_varArrayIndexes [THEN extD])

lemma simpleExprLoop_ext_step:
  assumes "exprExt n" "simpleExprLoop (Suc n) lvl lhs s = Some (r, s')"
  shows "ext s s'"
  using assms
  by (auto simp: ext_def bind_eq_Some_conv Let_def split: if_splits
        dest!: exprExtD ext_promote [THEN extD] ext_assignPromote [THEN extD] ext_varSelector [THEN extD] ext_varArrayIndexes [THEN extD])

lemma simpleExpr_ext_step:
  assumes "exprExt n" "simpleExpr (Suc n) lvl s = Some (r, s')"
  shows "ext s s'"
  using assms
  by (auto simp: ext_def bind_eq_Some_conv Let_def split: if_splits
        dest!: exprExtD ext_promote [THEN extD] ext_assignPromote [THEN extD] ext_varSelector [THEN extD] ext_varArrayIndexes [THEN extD])

lemma expressionLoop_ext_step:
  assumes "exprExt n" "expressionLoop (Suc n) lvl lhs s = Some (r, s')"
  shows "ext s s'"
  using assms
  by (auto simp: ext_def bind_eq_Some_conv Let_def split: if_splits
        dest!: exprExtD ext_promote [THEN extD] ext_assignPromote [THEN extD] ext_varSelector [THEN extD] ext_varArrayIndexes [THEN extD])

lemma expression_ext_step:
  assumes "exprExt n" "expression (Suc n) lvl s = Some (r, s')"
  shows "ext s s'"
  using assms
  by (auto simp: ext_def bind_eq_Some_conv Let_def split: if_splits
        dest!: exprExtD ext_promote [THEN extD] ext_assignPromote [THEN extD] ext_varSelector [THEN extD] ext_varArrayIndexes [THEN extD])

lemma expressionList_ext_step:
  assumes "exprExt n" "expressionList (Suc n) lvl s = Some (r, s')"
  shows "ext s s'"
  using assms
  by (auto simp: ext_def bind_eq_Some_conv Let_def split: if_splits
        dest!: exprExtD ext_promote [THEN extD] ext_assignPromote [THEN extD] ext_varSelector [THEN extD] ext_varArrayIndexes [THEN extD])

lemma callParams_ext_step:
  assumes "exprExt n" "callParams (Suc n) lvl ps k s = Some (r, s')"
  shows "ext s s'"
proof -
  from assms(2) obtain kd s1 s2 where
    e: "expression n lvl s = Some (kd, s1)" and
    a: "(if length ps > k then assignPromote (ps ! k) kd s1 else Some s1) = Some s2" and
    c: "(if acc TkComma s2 then callParams n lvl ps (k + 1) (adv TkComma s2)
         else Some (k + 1, s2)) = Some (r, s')"
    by (auto simp: bind_eq_Some_conv simp del: One_nat_def)
  from e assms(1) have 1: "ext s s1"
    by (auto simp: ext_def dest!: exprExtD)
  from a have 2: "ext s1 s2"
    by (cases "length ps > k") (auto dest: ext_assignPromote)
  from c assms(1) have 3: "ext s2 s'"
    by (cases "acc TkComma s2") (auto simp: ext_def dest!: exprExtD)
  from 1 2 3 show ?thesis by (blast intro: ext_trans)
qed

lemma callStatement_ext_step:
  assumes "exprExt n" "callStatement (Suc n) lvl it s = Some s'"
  shows "ext s s'"
  using assms
  by (auto simp: ext_def bind_eq_Some_conv Let_def split: if_splits
        dest!: exprExtD ext_promote [THEN extD] ext_assignPromote [THEN extD] ext_varSelector [THEN extD] ext_varArrayIndexes [THEN extD])

lemma varArray_ext_step:
  assumes "exprExt n" "varArray (Suc n) lvl it ty s = Some (r, s')"
  shows "ext s s'"
  using assms
  by (auto simp: ext_def bind_eq_Some_conv Let_def split: if_splits
        dest!: exprExtD ext_promote [THEN extD] ext_assignPromote [THEN extD] ext_varSelector [THEN extD] ext_varArrayIndexes [THEN extD])

lemma variableLoop_ext_step:
  assumes "exprExt n" "variableLoop (Suc n) lvl it ty s = Some (r, s')"
  shows "ext s s'"
  using assms
  by (auto simp: ext_def bind_eq_Some_conv Let_def split: if_splits
        dest!: exprExtD ext_promote [THEN extD] ext_assignPromote [THEN extD] ext_varSelector [THEN extD] ext_varArrayIndexes [THEN extD])

lemma variable_ext_step:
  assumes "exprExt n" "variable (Suc n) lvl it s = Some (r, s')"
  shows "ext s s'"
  using assms
  by (auto simp: ext_def bind_eq_Some_conv Let_def split: if_splits
        dest!: exprExtD ext_promote [THEN extD] ext_assignPromote [THEN extD] ext_varSelector [THEN extD] ext_varArrayIndexes [THEN extD])

lemma exprExt: "exprExt n"
proof (induction n)
  case 0
  show ?case by (simp add: exprExt_def)
next
  case (Suc n)
  show ?case
    unfolding exprExt_def [of "Suc n"]
    by (intro conjI allI impI) (erule identFactor_ext_step [OF Suc] parenExpr_ext_step [OF Suc] builtInFunc_ext_step [OF Suc] factor_ext_step [OF Suc] termLoop_ext_step [OF Suc] termProd_ext_step [OF Suc] unary_ext_step [OF Suc] simpleExprLoop_ext_step [OF Suc] simpleExpr_ext_step [OF Suc] expressionLoop_ext_step [OF Suc] expression_ext_step [OF Suc] expressionList_ext_step [OF Suc] callParams_ext_step [OF Suc] callStatement_ext_step [OF Suc] varArray_ext_step [OF Suc] variableLoop_ext_step [OF Suc] variable_ext_step [OF Suc])+
qed

lemmas expr_ext = exprExtD [OF _ exprExt]

subsection \<open>Statements only append code\<close>

lemma update_append_right [simp]:
  "length xs \<le> n \<Longrightarrow> (xs @ ys)[n := v] = xs @ ys[n - length xs := v]"
  by (simp add: list_update_append)

lemma patchD:
  "patch pc a s = Some s' \<Longrightarrow>
     pc < length (code s) \<and>
     code s' = (code s)[pc := Instr (op (code s ! pc)) (level (code s ! pc)) (IntegerDatum (int a))]
     \<and> uncounted s' = uncounted s"
  by (auto simp: ext_def patch_def split: if_splits)

lemma ext_assignStatement:
  "assignStatement n lvl it dup s = Some s' \<Longrightarrow> ext s s'"
  by (auto simp: ext_def assignStatement_def bind_eq_Some_conv Let_def split: if_splits
        dest!: expr_ext ext_assignPromote [THEN extD])

lemma ext_identStatement:
  "identStatement n lvl i s = Some s' \<Longrightarrow> ext s s'"
  by (auto simp: ext_def identStatement_def split: prod.splits option.splits SymKind.splits
        dest!: expr_ext ext_assignStatement [THEN extD] lookupD)

lemma ext_writeArgs:
  "writeArgs n lvl oss k s = Some (r, s') \<Longrightarrow> ext s s'"
proof (induction n arbitrary: oss k s)
  case 0
  then show ?case by simp
next
  case (Suc n)
  from Suc.prems obtain e s1 oss' s2 where
    a: "expression n lvl s = Some (e, s1)" and
    b: "(if acc TkColon s1 then
            do {
              (width, s3) \<leftarrow> expression n lvl (adv TkColon s1);
              w \<leftarrow> width;
              let oss1 = (if tclass w \<noteq> Integer
                          then oss @ [Lit ''expeced integer width parameter, got: '', Cls (tclass w)]
                          else oss);
              let s4 = (if tclass w \<noteq> Integer then error oss1 s3 else s3);
              if acc TkColon s4 then
                do {
                  (prec, s5) \<leftarrow> expression n lvl (adv TkColon s4);
                  p \<leftarrow> prec;
                  let oss2 = (if tclass p \<noteq> Integer
                              then oss1 @ [Lit ''expeced integer width parameter, got: '', Cls (tclass w)]
                              else oss1);
                  Some (oss2, if tclass p \<noteq> Integer then error oss2 s5 else s5)
                }
              else Some (oss1, emitI PUSH 0 0 s4)
            }
          else Some (oss, emitI PUSH 0 0 (emitI PUSH 0 0 s1))) = Some (oss', s2)" and
    c: "(if acc TkComma s2 then writeArgs n lvl oss' (k + 1) (adv TkComma s2)
         else Some (k + 1, s2)) = Some (r, s')"
    by (auto simp: ext_def bind_eq_Some_conv simp del: One_nat_def)
  from a have 1: "ext s s1"
    by (auto simp: ext_def dest!: expr_ext)
  have 2: "ext s1 s2"
  proof (cases "acc TkColon s1")
    case False
    with b show ?thesis by (auto simp: ext_def)
  next
    case True
    with b obtain width s3 w where
      d: "expression n lvl (adv TkColon s1) = Some (width, s3)" and
      f: "(let oss1 = (if tclass w \<noteq> Integer
                          then oss @ [Lit ''expeced integer width parameter, got: '', Cls (tclass w)]
                          else oss);
               s4 = (if tclass w \<noteq> Integer then error oss1 s3 else s3) in
              if acc TkColon s4 then
                do {
                  (prec, s5) \<leftarrow> expression n lvl (adv TkColon s4);
                  p \<leftarrow> prec;
                  let oss2 = (if tclass p \<noteq> Integer
                              then oss1 @ [Lit ''expeced integer width parameter, got: '', Cls (tclass w)]
                              else oss1);
                  Some (oss2, if tclass p \<noteq> Integer then error oss2 s5 else s5)
                }
              else Some (oss1, emitI PUSH 0 0 s4)) = Some (oss', s2)"
      by (auto simp: ext_def bind_eq_Some_conv)
    define oss1 where "oss1 = (if tclass w \<noteq> Integer
                          then oss @ [Lit ''expeced integer width parameter, got: '', Cls (tclass w)]
                          else oss)"
    define s4 where "s4 = (if tclass w \<noteq> Integer then error oss1 s3 else s3)"
    have c4: "ext s3 s4"
      by (simp add: s4_def ext_def)
    from d have 3: "ext s1 s3"
      by (auto simp: ext_def dest!: expr_ext)
    from f have g: "(if acc TkColon s4 then
                do {
                  (prec, s5) \<leftarrow> expression n lvl (adv TkColon s4);
                  p \<leftarrow> prec;
                  let oss2 = (if tclass p \<noteq> Integer
                              then oss1 @ [Lit ''expeced integer width parameter, got: '', Cls (tclass w)]
                              else oss1);
                  Some (oss2, if tclass p \<noteq> Integer then error oss2 s5 else s5)
                }
              else Some (oss1, emitI PUSH 0 0 s4)) = Some (oss', s2)"
      unfolding oss1_def s4_def Let_def .
    have "ext s4 s2"
    proof (cases "acc TkColon s4")
      case False
      with g show ?thesis by (auto simp: ext_def)
    next
      case True
      with g obtain prec s5 where
        h: "expression n lvl (adv TkColon s4) = Some (prec, s5)" and
        i: "code s2 = code s5 \<and> uncounted s2 = uncounted s5"
        by (auto simp: ext_def bind_eq_Some_conv Let_def split: if_splits)
      from h have "ext s4 s5"
        by (auto simp: ext_def dest!: expr_ext)
      with i show ?thesis by (simp add: ext_def)
    qed
    with c4 3 show ?thesis by (blast intro: ext_trans)
  qed
  from c have 3: "ext s2 s'"
    by (cases "acc TkComma s2") (auto simp: ext_def dest!: Suc.IH [THEN extD])
  from 1 2 3 show ?case by (blast intro: ext_trans)
qed

lemma ext_writeStmt: "writeStmt n lvl s = Some s' \<Longrightarrow> ext s s'"
  by (auto simp: ext_def writeStmt_def bind_eq_Some_conv split: if_splits dest!: ext_writeArgs [THEN extD])

lemma ext_statementNew: "statementNew n lvl s = Some s' \<Longrightarrow> ext s s'"
  by (auto simp: ext_def statementNew_def bind_eq_Some_conv Let_def
        split: if_splits prod.splits bool.splits option.splits
        dest!: expr_ext expectD lookupD)

lemma ext_statementProcs: "statementProcs n lvl s = Some s' \<Longrightarrow> ext s s'"
  by (auto simp: ext_def statementProcs_def writeStatement_def writeLnStatement_def bind_eq_Some_conv Let_def
        split: if_splits dest!: expr_ext ext_writeStmt [THEN extD] ext_statementNew [THEN extD])

lemmas stmtExtD =
  stmtExt_def [THEN iffD1, THEN conjunct1, rule_format, THEN extD, rotated]
  stmtExt_def [THEN iffD1, THEN conjunct2, THEN conjunct1, rule_format, THEN extD, rotated]
  stmtExt_def [THEN iffD1, THEN conjunct2, THEN conjunct2, THEN conjunct1, rule_format, THEN extD, rotated]
  stmtExt_def [THEN iffD1, THEN conjunct2, THEN conjunct2, THEN conjunct2, THEN conjunct1, rule_format, THEN extD, rotated]
  stmtExt_def [THEN iffD1, THEN conjunct2, THEN conjunct2, THEN conjunct2, THEN conjunct2, THEN conjunct1, rule_format, THEN extD, rotated]
  stmtExt_def [THEN iffD1, THEN conjunct2, THEN conjunct2, THEN conjunct2, THEN conjunct2, THEN conjunct2, rule_format, THEN extD, rotated]

lemma statement_ext_step:
  assumes "stmtExt n" "statement (Suc n) lvl s = Some s'"
  shows "ext s s'"
  using assms
  by (auto simp: ext_def bind_eq_Some_conv Let_def split: if_splits
        dest!: stmtExtD ext_identStatement [THEN extD] ext_statementProcs [THEN extD])

lemma statementList_ext_step:
  assumes "stmtExt n" "statementList (Suc n) lvl s = Some s'"
  shows "ext s s'"
  using assms
  by (auto simp: ext_def bind_eq_Some_conv Let_def split: if_splits dest!: stmtExtD)

lemma ifStatement_ext_step:
  assumes "stmtExt n" "ifStatement (Suc n) lvl s = Some s'"
  shows "ext s s'"
  using assms
  by (auto simp: ext_def bind_eq_Some_conv Let_def emit_def accept_def split: if_splits
        dest!: stmtExtD expr_ext patchD)

lemma whileStatement_ext_step:
  assumes "stmtExt n" "whileStatement (Suc n) lvl s = Some s'"
  shows "ext s s'"
  using assms
  by (auto simp: ext_def bind_eq_Some_conv Let_def emit_def accept_def split: if_splits
        dest!: stmtExtD expr_ext patchD)

lemma repeateStatement_ext_step:
  assumes "stmtExt n" "repeateStatement (Suc n) lvl s = Some s'"
  shows "ext s s'"
  using assms
  by (auto simp: ext_def bind_eq_Some_conv Let_def split: if_splits prod.splits
        dest!: stmtExtD expr_ext)

lemma forStatement_ext_step:
  assumes "stmtExt n" "forStatement (Suc n) lvl s = Some s'"
  shows "ext s s'"
  using assms
  by (auto simp: ext_def bind_eq_Some_conv Let_def emit_def split: if_splits prod.splits option.splits
        dest!: stmtExtD expr_ext patchD lookupD ext_assignStatement [THEN extD])

lemma stmtExt: "stmtExt n"
proof (induction n)
  case 0
  show ?case by (simp add: stmtExt_def)
next
  case (Suc n)
  show ?case
    unfolding stmtExt_def [of "Suc n"]
    by (intro conjI allI impI)
       (erule statement_ext_step [OF Suc] statementList_ext_step [OF Suc] ifStatement_ext_step [OF Suc]
          whileStatement_ext_step [OF Suc] repeateStatement_ext_step [OF Suc]
          forStatement_ext_step [OF Suc])+
qed

lemmas stmt_ext = stmtExtD [OF _ stmtExt]

subsection \<open>Declarations emit no code\<close>

lemma code_insert_sym [simp]: "code (snd (insert_sym n v s)) = code s"
  by (simp add: insert_sym_def)

lemma uncounted_insert_sym [simp]: "uncounted (snd (insert_sym n v s)) = uncounted s"
  by (simp add: insert_sym_def)

lemma code_insertS [simp]: "code (insertS n v s) = code s"
  by (simp add: insertS_def)

lemma uncounted_insertS [simp]: "uncounted (insertS n v s) = uncounted s"
  by (simp add: insertS_def)

lemma insert_symD: "insert_sym n v s = (h, s') \<Longrightarrow> code s' = code s \<and> uncounted s' = uncounted s"
  using code_insert_sym [of n v s] uncounted_insert_sym [of n v s] by simp

lemma code_purge [simp]: "code (purge l s) = code s"
  by (simp add: purge_def)

lemma uncounted_purge [simp]: "uncounted (purge l s) = uncounted s"
  by (simp add: purge_def)

lemma updateSymD: "updateSym h f s = Some s' \<Longrightarrow> code s' = code s \<and> uncounted s' = uncounted s"
  by (auto simp: ext_def keep_def updateSym_def split: if_splits)

lemma code_nameDecl [simp]: "code (snd (nameDecl l p s)) = code s"
  by (auto simp: ext_def keep_def nameDecl_def Let_def expect_def accept_def split: prod.splits bool.splits if_splits)

lemma uncounted_nameDecl [simp]: "uncounted (snd (nameDecl l p s)) = uncounted s"
  by (auto simp: ext_def keep_def nameDecl_def Let_def expect_def accept_def split: prod.splits bool.splits if_splits)

lemma nameDeclD: "nameDecl l p s = (i, s') \<Longrightarrow> code s' = code s \<and> uncounted s' = uncounted s"
  using code_nameDecl [of l p s] uncounted_nameDecl [of l p s] by simp

lemma code_constExpr [simp]: "code (snd (constExpr s)) = code s"
  by (auto simp: ext_def keep_def constExpr_def Let_def split: prod.splits option.splits if_splits dest!: lookupD)

lemma uncounted_constExpr [simp]: "uncounted (snd (constExpr s)) = uncounted s"
  by (auto simp: ext_def keep_def constExpr_def Let_def split: prod.splits option.splits if_splits dest!: lookupD)

lemma constExprD: "constExpr s = (v, s') \<Longrightarrow> code s' = code s \<and> uncounted s' = uncounted s"
  using code_constExpr [of s] uncounted_constExpr [of s] by simp

lemma code_constDecl [simp]: "code (constDecl l s) = code s"
  by (auto simp: ext_def keep_def constDecl_def Let_def split: prod.splits dest!: nameDeclD constExprD)

lemma uncounted_constDecl [simp]: "uncounted (constDecl l s) = uncounted s"
  by (auto simp: ext_def keep_def constDecl_def Let_def split: prod.splits dest!: nameDeclD constExprD)

lemma code_insertEnums [simp]: "code (insertEnums l ty v ids s) = code s"
  by (induction ids arbitrary: v s) auto

lemma uncounted_insertEnums [simp]: "uncounted (insertEnums l ty v ids s) = uncounted s"
  by (induction ids arbitrary: v s) auto

lemma code_redefined [simp]: "code (redefined l n es s) = code s"
  by (induction es arbitrary: s) auto

lemma uncounted_redefined [simp]: "uncounted (redefined l n es s) = uncounted s"
  by (induction es arbitrary: s) auto

lemma installVarsD: "installVars l dx ids s = Some s' \<Longrightarrow> code s' = code s \<and> uncounted s' = uncounted s"
proof (induction ids arbitrary: dx s)
  case Nil
  then show ?case by simp
next
  case (Cons a ids)
  obtain nm ty where a: "a = (nm, ty)" by (cases a)
  from Cons.prems show ?case
    unfolding a by (auto simp: ext_def keep_def ext_def keep_def bind_eq_Some_conv Let_def dest!: Cons.IH)
qed

lemma identifierListD: "identifierList n l p s = Some (ids, s') \<Longrightarrow> code s' = code s \<and> uncounted s' = uncounted s"
proof (induction n arbitrary: s ids)
  case 0
  then show ?case by simp
next
  case (Suc n)
  from Suc.prems show ?case
    by (auto simp: ext_def keep_def bind_eq_Some_conv Let_def split: prod.splits if_splits dest!: Suc.IH nameDeclD)
qed

lemma ordinalTypeD: "ordinalType n l s = Some (t, s') \<Longrightarrow> code s' = code s \<and> uncounted s' = uncounted s"
  by (auto simp: ext_def keep_def ordinalType_def bind_eq_Some_conv Let_def
        split: prod.splits if_splits dest!: identifierListD constExprD)

lemma simpleTypeD: "simpleType n l s = Some (t, s') \<Longrightarrow> code s' = code s \<and> uncounted s' = uncounted s"
  by (auto simp: ext_def keep_def simpleType_def bind_eq_Some_conv Let_def
        split: prod.splits option.splits if_splits dest!: ordinalTypeD lookupD)

lemma simpleTypeListD: "simpleTypeList n l s = Some (ts, s') \<Longrightarrow> code s' = code s \<and> uncounted s' = uncounted s"
proof (induction n arbitrary: s ts)
  case 0
  then show ?case by simp
next
  case (Suc n)
  from Suc.prems show ?case
    by (auto simp: ext_def keep_def bind_eq_Some_conv split: if_splits dest!: Suc.IH simpleTypeD)
qed

lemmas typeKeepD =
  typeKeep_def [THEN iffD1, THEN conjunct1, rule_format, THEN keepD, rotated]
  typeKeep_def [THEN iffD1, THEN conjunct2, THEN conjunct1, rule_format, THEN keepD, rotated]
  typeKeep_def [THEN iffD1, THEN conjunct2, THEN conjunct2, THEN conjunct1, rule_format, THEN keepD, rotated]
  typeKeep_def [THEN iffD1, THEN conjunct2, THEN conjunct2, THEN conjunct2, THEN conjunct1, rule_format, THEN keepD, rotated]
  typeKeep_def [THEN iffD1, THEN conjunct2, THEN conjunct2, THEN conjunct2, THEN conjunct2, THEN conjunct1, rule_format, THEN keepD, rotated]
  typeKeep_def [THEN iffD1, THEN conjunct2, THEN conjunct2, THEN conjunct2, THEN conjunct2, THEN conjunct2, rule_format, THEN keepD, rotated]

lemma typeProd_keep_step:
  assumes "typeKeep n" "typeProd (Suc n) l p s = Some (r, s')"
  shows "keep s s'"
  using assms
  by (auto simp: ext_def keep_def bind_eq_Some_conv Let_def split: if_splits prod.splits option.splits
        dest!: typeKeepD lookupD simpleTypeD)

lemma structuredType_keep_step:
  assumes "typeKeep n" "structuredType (Suc n) l p s = Some (r, s')"
  shows "keep s s'"
  using assms
  by (auto simp: ext_def keep_def bind_eq_Some_conv Let_def split: if_splits
        dest!: typeKeepD simpleTypeListD)

lemma fieldList_keep_step:
  assumes "typeKeep n" "fieldList (Suc n) l p f s = Some (r, s')"
  shows "keep s s'"
  using assms
  by (auto simp: ext_def keep_def bind_eq_Some_conv dest!: typeKeepD)

lemma varDeclList_keep_step:
  assumes "typeKeep n" "varDeclList (Suc n) l b p f s = Some (r, s')"
  shows "keep s s'"
  using assms
  by (auto simp: ext_def keep_def bind_eq_Some_conv split: if_splits dest!: typeKeepD installVarsD)

lemma varDeclLoop_keep_step:
  assumes "typeKeep n" "varDeclLoop (Suc n) l p f s = Some (r, s')"
  shows "keep s s'"
  using assms
  by (auto simp: ext_def keep_def bind_eq_Some_conv split: if_splits dest!: typeKeepD)

lemma varDecl_keep_step:
  assumes "typeKeep n" "varDecl (Suc n) l p f s = Some (r, s')"
  shows "keep s s'"
  using assms
  by (auto simp: ext_def keep_def bind_eq_Some_conv Let_def dest!: typeKeepD identifierListD)

lemma typeKeep: "typeKeep n"
proof (induction n)
  case 0
  show ?case by (simp add: typeKeep_def)
next
  case (Suc n)
  show ?case
    unfolding typeKeep_def [of "Suc n"]
    by (intro conjI allI impI)
       (erule typeProd_keep_step [OF Suc] structuredType_keep_step [OF Suc] fieldList_keep_step [OF Suc]
          varDeclList_keep_step [OF Suc] varDeclLoop_keep_step [OF Suc] varDecl_keep_step [OF Suc])+
qed

lemmas type_keep = typeKeepD [OF _ typeKeep]

lemma constDeclLoopD: "constDeclLoop n l s = Some s' \<Longrightarrow> code s' = code s \<and> uncounted s' = uncounted s"
proof (induction n arbitrary: s)
  case 0
  then show ?case by simp
next
  case (Suc n)
  from Suc.prems show ?case
    by (auto simp: ext_def keep_def Let_def split: if_splits dest!: Suc.IH)
qed

lemma constDeclListD: "constDeclList n l s = Some s' \<Longrightarrow> code s' = code s \<and> uncounted s' = uncounted s"
  by (auto simp: ext_def keep_def constDeclList_def split: if_splits dest!: constDeclLoopD)

lemma typeDeclD: "typeDecl n l s = Some s' \<Longrightarrow> code s' = code s \<and> uncounted s' = uncounted s"
  by (auto simp: ext_def keep_def typeDecl_def Let_def bind_eq_Some_conv split: prod.splits dest!: type_keep nameDeclD)

lemma typeDeclLoopD: "typeDeclLoop n l s = Some s' \<Longrightarrow> code s' = code s \<and> uncounted s' = uncounted s"
proof (induction n arbitrary: s)
  case 0
  then show ?case by simp
next
  case (Suc n)
  from Suc.prems show ?case
    by (auto simp: ext_def keep_def bind_eq_Some_conv split: if_splits dest!: Suc.IH typeDeclD)
qed

lemma typeDeclListD: "typeDeclList n l s = Some s' \<Longrightarrow> code s' = code s \<and> uncounted s' = uncounted s"
  by (auto simp: ext_def keep_def typeDeclList_def split: if_splits dest!: typeDeclLoopD)

lemma varDeclBlockD: "varDeclBlock n l s = Some (dx, s') \<Longrightarrow> code s' = code s \<and> uncounted s' = uncounted s"
  by (auto simp: ext_def keep_def varDeclBlock_def bind_eq_Some_conv split: if_splits dest!: type_keep)

lemma subPrefixDeclD: "subPrefixDecl n l k s = Some (h, s') \<Longrightarrow> code s' = code s \<and> uncounted s' = uncounted s"
  by (auto simp: ext_def keep_def subPrefixDecl_def bind_eq_Some_conv Let_def split: prod.splits if_splits
        dest!: type_keep nameDeclD insert_symD updateSymD)

lemmas blockExtD =
  blockExt_def [THEN iffD1, THEN conjunct1, rule_format, THEN extD, rotated]
  blockExt_def [THEN iffD1, THEN conjunct2, THEN conjunct1, rule_format, THEN extD, rotated]
  blockExt_def [THEN iffD1, THEN conjunct2, THEN conjunct2, THEN conjunct1, rule_format, THEN extD, rotated]
  blockExt_def [THEN iffD1, THEN conjunct2, THEN conjunct2, THEN conjunct2, rule_format, THEN extD, rotated]

subsection \<open>Blocks and the program\<close>

lemma blockDecl_split:
  "blockDecl (Suc n) val lvl s =
     do {
       (dx, s4) \<leftarrow> blockDecls n lvl s;
       let (entry, s5) = blockPrefix dx s4;
       s' \<leftarrow> blockBody n val lvl entry s5;
       Some (entry, s')
     }"
proof (cases "constDeclList n lvl s")
  case None
  then show ?thesis by (simp add: blockDecls_def)
next
  case c: (Some s1)
  show ?thesis
  proof (cases "typeDeclList n lvl s1")
    case None
    with c show ?thesis by (simp add: blockDecls_def)
  next
    case t: (Some s2)
    show ?thesis
    proof (cases "varDeclBlock n lvl s2")
      case None
      with c t show ?thesis by (simp add: blockDecls_def)
    next
      case (Some a)
      obtain dx s3 where a: "a = (dx, s3)" by (cases a)
      note v = Some [unfolded a]
      show ?thesis
      proof (cases "subDeclList n lvl s3")
        case None
        with c t v show ?thesis by (simp add: blockDecls_def)
      next
        case (Some s4)
        with c t v show ?thesis
          by (cases "blockPrefix dx s4")
             (simp add: blockDecls_def blockBody_def blockPrefix_def Let_def)
      qed
    qed
  qed
qed

lemma blockDecls_ext:
  assumes "blockExt n" "blockDecls n l s = Some (dx, s')"
  shows "ext s s'"
  using assms
  by (auto simp: ext_def blockDecls_def bind_eq_Some_conv
        dest!: blockExtD constDeclListD typeDeclListD varDeclBlockD)

lemma blockPrefix_code:
  "blockPrefix dx s = (entry, s') \<Longrightarrow>
     entry = length (code s)
     \<and> code s' = code s @ (if dx > 0 then [Instr ENTER 0 (IntegerDatum dx)] else [])
     \<and> uncounted s' = uncounted s"
  by (auto simp: blockPrefix_def emit_def split: if_splits)

lemma blockBody_code:
  assumes "blockBody n val l entry s = Some s'"
  shows "\<exists>body (v::Entry). code s' = code s @ body @
            [Instr (if skind (esym v) = Function then RETF else RET) 0
               (IntegerDatum (int (length (sparams (esym v)))))]
          \<and> uncounted s' = uncounted s"
proof -
  from assms have "\<exists>s6 s7 v.
      updateSym val (\<lambda>v. v\<lparr>svalue := IntegerDatum (int entry)\<rparr>) s = Some s6
      \<and> (case expect TkBegin True s6 of
                (True, s') \<Rightarrow> do { s'' \<leftarrow> statementList n l s'; Some (expectS TkEnd s'') }
              | (False, s') \<Rightarrow> Some s') = Some s7
      \<and> derefSym val s7 = Some v
      \<and> s' = purge l (if skind (esym v) = Function
                      then emitI RETF 0 (int (length (sparams (esym v)))) s7
                      else emitI RET 0 (int (length (sparams (esym v)))) s7)"
    by (fastforce simp: blockBody_def bind_eq_Some_conv Let_def)
  then obtain s6 s7 v where
    a: "updateSym val (\<lambda>v. v\<lparr>svalue := IntegerDatum (int entry)\<rparr>) s = Some s6" and
    b: "(case expect TkBegin True s6 of
                (True, s') \<Rightarrow> do { s'' \<leftarrow> statementList n l s'; Some (expectS TkEnd s'') }
              | (False, s') \<Rightarrow> Some s') = Some s7" and
    d: "derefSym val s7 = Some v" and
    c: "s' = purge l (if skind (esym v) = Function
                      then emitI RETF 0 (int (length (sparams (esym v)))) s7
                      else emitI RET 0 (int (length (sparams (esym v)))) s7)"
    by (elim exE conjE) (rule that)
  from a have 1: "code s6 = code s \<and> uncounted s6 = uncounted s" by (rule updateSymD)
  from b obtain body where 2: "code s7 = code s6 @ body \<and> uncounted s7 = uncounted s6"
    by (auto simp: bind_eq_Some_conv split: prod.splits bool.splits dest!: expectD stmt_ext)
  from c 1 2 have "code s' = code s @ body @
            [Instr (if skind (esym v) = Function then RETF else RET) 0
               (IntegerDatum (int (length (sparams (esym v)))))]
          \<and> uncounted s' = uncounted s"
    by simp
  then show ?thesis by blast
qed

lemma blockDecl_ext_step:
  assumes "blockExt n" "blockDecl (Suc n) v l s = Some (r, s')"
  shows "ext s s'"
proof -
  from assms(2) obtain dx s4 where
    a: "blockDecls n l s = Some (dx, s4)" and
    bc: "(let (entry, s5) = blockPrefix dx s4
          in do { s' \<leftarrow> blockBody n v l entry s5; Some (entry, s') }) = Some (r, s')"
    unfolding blockDecl_split
    by (auto simp: bind_eq_Some_conv)
  obtain e s5 where b': "blockPrefix dx s4 = (e, s5)"
    by (cases "blockPrefix dx s4")
  with bc have b: "blockPrefix dx s4 = (r, s5)" and c: "blockBody n v l r s5 = Some s'"
    by (auto simp: bind_eq_Some_conv)
  note 1 = blockDecls_ext [OF assms(1) a]
  from blockPrefix_code [OF b] have 2: "ext s4 s5"
    by (simp add: ext_def)
  from blockBody_code [OF c] have 3: "ext s5 s'"
    by (auto simp: ext_def)
  from 1 2 3 show ?thesis by (blast intro: ext_trans)
qed

lemma subDeclList_ext_step:
  assumes "blockExt n" "subDeclList (Suc n) l s = Some s'"
  shows "ext s s'"
  using assms
  by (auto simp: ext_def keep_def bind_eq_Some_conv split: if_splits dest!: blockExtD)

lemma procDecl_ext_step:
  assumes "blockExt n" "procDecl (Suc n) l s = Some s'"
  shows "ext s s'"
  using assms
  by (auto simp: ext_def keep_def bind_eq_Some_conv Let_def dest!: blockExtD subPrefixDeclD)

lemma funcDecl_ext_step:
  assumes "blockExt n" "funcDecl (Suc n) l s = Some s'"
  shows "ext s s'"
  using assms
  by (auto simp: ext_def keep_def bind_eq_Some_conv Let_def dest!: blockExtD subPrefixDeclD type_keep updateSymD)

lemma blockExt: "blockExt n"
proof (induction n)
  case 0
  show ?case by (simp add: blockExt_def)
next
  case (Suc n)
  show ?case
    unfolding blockExt_def [of "Suc n"]
    by (intro conjI allI impI)
       (erule blockDecl_ext_step [OF Suc] subDeclList_ext_step [OF Suc] procDecl_ext_step [OF Suc]
          funcDecl_ext_step [OF Suc])+
qed

lemmas block_ext = blockExtD [OF _ blockExt]

lemma progDecl_split:
  "progDecl n lvl s =
     do {
       (val, call_pc, s6) \<leftarrow> progHeading n lvl s;
       (entry, s7) \<leftarrow> blockDecl n val lvl s6;
       s8 \<leftarrow> patch call_pc entry s7;
       Some (expectS TkPeriod s8)
     }"
  by (simp add: progDecl_def progHeading_def Let_def split_def)

lemma progHeading_code:
  "progHeading n lvl s = Some (val, pc, s6) \<Longrightarrow>
     pc = length (code s)
     \<and> code s6 = code s @ [Instr CALL (word_of_int lvl) (IntegerDatum 0), Instr HALT 0 (IntegerDatum 0)]
     \<and> uncounted s6 = uncounted s"
  by (auto simp: progHeading_def Let_def bind_eq_Some_conv emit_def split: prod.splits
        dest!: subPrefixDeclD)

lemma progDecl_uncounted:
  assumes "progDecl n lvl s = Some s'"
  shows "uncounted s' = uncounted s"
proof -
  from assms obtain val pc s6 entry s7 s8 where
    a: "progHeading n lvl s = Some (val, pc, s6)" and
    b: "blockDecl n val lvl s6 = Some (entry, s7)" and
    c: "patch pc entry s7 = Some s8" and
    d: "s' = expectS TkPeriod s8"
    unfolding progDecl_split by (auto simp: bind_eq_Some_conv)
  from progHeading_code [OF a] block_ext(1) [OF b] patchD [OF c] d show ?thesis
    by simp
qed

lemma uncounted_start: "uncounted (start toks) = 0"
  by (simp add: start_def uncounted_def PComp_new_def insertS_def insert_sym_def Compilier_def)

lemma compile_start: "compile n toks = progDecl n 0 (start toks)"
  by (simp add: compile_def run_def start_def)

text \<open>
  Whatever the source file, the count \<^verbatim>\<open>comp\<close> returns is the number of diagnostics the
  compiler has written, modulo \<open>2\<^sup>3\<^sup>2\<close>.
\<close>

lemma compile_counts:
  assumes "compile n toks = Some s'"
  shows "nErrors s' = of_nat (length (diags s'))"
proof -
  from assms have "uncounted s' = 0"
    by (simp add: compile_start progDecl_uncounted uncounted_start)
  then show ?thesis
    by (simp add: uncounted_def)
qed

lemmas evals =
  numeral_nat reading_def inMain_def tk_def ident_def num_def realnum_def start_def
  mkToken_def nextToken_def current_def accept_def expect_def emit_def emit0_def emitI_def
  error_def isAnInteger_def isAReal_def promote_def assignPromote_def isOrdinal_def maxRange_def
  insert_sym_def insertS_def equal_range_def lookup_def purge_def Compilier_def PComp_new_def
  makeType_def makeConst_def makeVar_def makeSbr_def
  intDesc_def realDesc_def boolDesc_def charDesc_def newIntDesc_def newEnumDesc_def
  newPointerDesc_def newArrayDesc_def newRcrdDesc_def
  emitVarRef_def varSelector_def patch_def assignStatement_def identStatement_def
  writeStmt_def writeStatement_def writeLnStatement_def statementNew_def statementProcs_def
  span_def oneOf_def nameDecl_def derefSym_def updateSym_def constExpr_def ordinalType_def
  simpleType_def trimPrefix_def varStops_def constDecl_def constStops_def constDeclList_def
  typeDecl_def typeStops_def typeDeclList_def varDeclBlock_def subPrefixDecl_def
  progDecl_def run_def compile_def FrameSize_def FrameRetVal_def Let_def

subsection \<open>Numeric promotion of binary operands\<close>













subsection \<open>Conversions of an assignment\<close>

lemma compile_progRounding:
  "map_option (\<lambda>s. (code s, nErrors s, diags s)) (compile 10 progRounding) =
     Some ([Instr CALL 0 (IntegerDatum 2), Instr HALT 0 (IntegerDatum 0),
            Instr ENTER 0 (IntegerDatum 1), Instr PUSHVAR 0 (IntegerDatum 0),
            Instr PUSH 0 (RealDatum (3 / 2)), Instr ROUND 0 (IntegerDatum 0),
            Instr ASSIGN 0 (IntegerDatum 1), Instr RET 0 (IntegerDatum 0)],
           1, [[Lit ''rounding real to fit in an integer'']])"
  by code_simp

text \<open>
  Claim C7, as the claim states it, fails. The only diagnostic of
  \<open>program p; var n : integer; begin n := 1.5 end.\<close> is the one of the rounding assignment,
  and the count \<^verbatim>\<open>comp\<close> returns to the driver is 1, so the driver does not run the program.
\<close>

theorem rounding_assignment_blocks_execution:
  "map_option (\<lambda>s. (diags s, nErrors s, driverRuns (nErrors s))) (compile 10 progRounding)
     = Some ([[Lit ''rounding real to fit in an integer'']], 1, False)"
  using compile_progRounding by (auto simp: driverRuns_def)

lemma assignPromote_round:
  "tclass l = Integer \<Longrightarrow> tclass r = Real \<Longrightarrow>
     assignPromote (Some l) (Some r) s =
       Some (s\<lparr>diags := diags s @ [[Lit ''rounding real to fit in an integer'']],
               nErrors := nErrors s + 1,
               code := code s @ Instr ROUND 0 (IntegerDatum 0) # limitChecks l\<rparr>)"
  by (auto simp: assignPromote_def isAnInteger_def isAReal_def limitChecks_def Let_def
        emit0_def emitI_def emit_def error_def)

lemma assignPromote_itor:
  "tclass l = Real \<Longrightarrow> tclass r = Integer \<Longrightarrow>
     assignPromote (Some l) (Some r) s =
       Some (s\<lparr>code := code s @ [Instr ITOR 0 (IntegerDatum 0)]\<rparr>)"
  by (simp add: assignPromote_def isAnInteger_def isAReal_def isOrdinal_def Let_def
        emit0_def emitI_def emit_def error_def)

lemma word32_of_nat_neq_0:
  "0 < k \<Longrightarrow> k < 2 ^ 32 \<Longrightarrow> (of_nat k :: 32 word) \<noteq> 0"
  by (simp add: word_of_nat_eq_0_iff) (metis dvd_imp_le not_less)

text \<open>
  Claim C7, amended. An assignment whose target (a variable or the return value of a
  function) is of an Integer type and whose r-value is of a Real type is still compiled:
  after the code of the r-value, \<^verbatim>\<open>assignStatement\<close> emits \<^verbatim>\<open>ROUND\<close>, the limit checks of the
  target and the \<^verbatim>\<open>ASSIGN\<close>; it reports the conversion through \<^verbatim>\<open>error\<close>, which writes the
  diagnostic and increments the error count, modulo \<open>2\<^sup>3\<^sup>2\<close>. An Integer r-value assigned
  to a Real target emits \<^verbatim>\<open>ITOR\<close> and the \<^verbatim>\<open>ASSIGN\<close> and reports nothing. The count the
  compiler returns for a source file is the number of diagnostics it has written, modulo
  \<open>2\<^sup>3\<^sup>2\<close>, and the driver runs the program only if that count is 0: a compilation
  whose only diagnostic is the rounding one returns 1, and a compilation that has written
  the rounding diagnostic and fewer than \<open>2\<^sup>3\<^sup>2\<close> diagnostics in all is not run.
\<close>

theorem assignment_conversions:
  "((skind (esym it) = Variable \<and> variable n lvl it s = Some (Some l, s1)
       \<or> skind (esym it) = Function \<and> stype (esym it) = Some l
           \<and> s1 = emitI PUSHVAR 0 FrameRetVal s)
      \<and> expression n lvl (expectS TkAssign (if dup then emit0 DUP s1 else s1)) = Some (Some r, s4) \<longrightarrow>
        (tclass l = Integer \<and> tclass r = Real \<longrightarrow>
           assignStatement n lvl it dup s =
             Some (s4\<lparr>diags := diags s4 @ [[Lit ''rounding real to fit in an integer'']],
                      nErrors := nErrors s4 + 1,
                      code := code s4 @ Instr ROUND 0 (IntegerDatum 0) # limitChecks l
                                @ [Instr ASSIGN 0 (IntegerDatum (int (tsize l)))]\<rparr>))
        \<and> (tclass l = Real \<and> tclass r = Integer \<longrightarrow>
           assignStatement n lvl it dup s =
             Some (s4\<lparr>code := code s4 @ [Instr ITOR 0 (IntegerDatum 0),
                                            Instr ASSIGN 0 (IntegerDatum (int (tsize l)))]\<rparr>)))
   \<and> (compile m toks = Some sf \<longrightarrow>
        nErrors sf = of_nat (length (diags sf))
        \<and> driverRuns (nErrors sf) = (nErrors sf = 0)
        \<and> (diags sf = [[Lit ''rounding real to fit in an integer'']] \<longrightarrow>
             nErrors sf = 1 \<and> \<not> driverRuns (nErrors sf))
        \<and> ([Lit ''rounding real to fit in an integer''] \<in> set (diags sf)
             \<and> length (diags sf) < 2 ^ 32 \<longrightarrow> \<not> driverRuns (nErrors sf)))"
proof (intro conjI impI)
  assume a: "(skind (esym it) = Variable \<and> variable n lvl it s = Some (Some l, s1)
       \<or> skind (esym it) = Function \<and> stype (esym it) = Some l
           \<and> s1 = emitI PUSHVAR 0 FrameRetVal s)
      \<and> expression n lvl (expectS TkAssign (if dup then emit0 DUP s1 else s1)) = Some (Some r, s4)"
  then have lv: "(if skind (esym it) = Function then Some (stype (esym it), emitI PUSHVAR 0 FrameRetVal s)
          else if skind (esym it) = Variable then variable n lvl it s
          else Some (stype (esym it),
                 error [Lit ''expected a variable or a function, got:'', Str (ename it)] s))
        = Some (Some l, s1)"
    by auto
  {
    assume "tclass l = Integer \<and> tclass r = Real"
    then show "assignStatement n lvl it dup s =
             Some (s4\<lparr>diags := diags s4 @ [[Lit ''rounding real to fit in an integer'']],
                      nErrors := nErrors s4 + 1,
                      code := code s4 @ Instr ROUND 0 (IntegerDatum 0) # limitChecks l
                                @ [Instr ASSIGN 0 (IntegerDatum (int (tsize l)))]\<rparr>)"
      using a unfolding assignStatement_def lv
      by (simp add: assignPromote_round emitI_def emit_def)
  }
  {
    assume "tclass l = Real \<and> tclass r = Integer"
    then show "assignStatement n lvl it dup s =
             Some (s4\<lparr>code := code s4 @ [Instr ITOR 0 (IntegerDatum 0),
                                            Instr ASSIGN 0 (IntegerDatum (int (tsize l)))]\<rparr>)"
      using a unfolding assignStatement_def lv
      by (simp add: assignPromote_itor emitI_def emit_def)
  }
next
  assume c: "compile m toks = Some sf"
  then show n: "nErrors sf = of_nat (length (diags sf))"
    by (rule compile_counts)
  show "driverRuns (nErrors sf) = (nErrors sf = 0)"
    by (simp add: driverRuns_def)
  {
    assume "diags sf = [[Lit ''rounding real to fit in an integer'']]"
    with n show "nErrors sf = 1" "\<not> driverRuns (nErrors sf)"
      by (simp_all add: driverRuns_def)
  }
  {
    assume "[Lit ''rounding real to fit in an integer''] \<in> set (diags sf)
             \<and> length (diags sf) < 2 ^ 32"
    then have "0 < length (diags sf)" "length (diags sf) < 2 ^ 32"
      by auto
    then show "\<not> driverRuns (nErrors sf)"
      unfolding n driverRuns_def by (rule word32_of_nat_neq_0)
  }
qed


theorem assignment_conversions_witness:
  "map_option (\<lambda>s. (code s, nErrors s, diags s))
     (assignStatement 9 0 \<lparr>eid = 9, ename = ''n'', esym = makeVar 0 1 (Some intDesc)\<rparr> False
        (reading [tk TkAssign, realnum (3 / 2), tk TkSemiColon] inMain))
     = Some ([Instr PUSHVAR 0 (IntegerDatum 1), Instr PUSH 0 (RealDatum (3 / 2)),
              Instr ROUND 0 (IntegerDatum 0), Instr ASSIGN 0 (IntegerDatum 1)],
             1, [[Lit ''rounding real to fit in an integer'']])
   \<and> map_option (\<lambda>s. (code s, nErrors s, diags s))
     (assignStatement 9 0 \<lparr>eid = 10, ename = ''r'', esym = makeVar 0 2 (Some realDesc)\<rparr> False
        (reading [tk TkAssign, num 3, tk TkSemiColon] inMain))
     = Some ([Instr PUSHVAR 0 (IntegerDatum 2), Instr PUSH 0 (IntegerDatum 3),
              Instr ITOR 0 (IntegerDatum 0), Instr ASSIGN 0 (IntegerDatum 1)], 0, [])
   \<and> map_option (\<lambda>s. (nErrors s, driverRuns (nErrors s))) (compile 10 progRounding)
     = Some (1, False)"
proof -
  define itn where "itn = \<lparr>eid = 9, ename = ''n'', esym = makeVar 0 1 (Some intDesc)\<rparr>"
  define itr where "itr = \<lparr>eid = 10, ename = ''r'', esym = makeVar 0 2 (Some realDesc)\<rparr>"
  define sa where "sa = reading [tk TkAssign, realnum (3 / 2), tk TkSemiColon] inMain"
  define sb where "sb = reading [tk TkAssign, num 3, tk TkSemiColon] inMain"
  define a1 where "a1 = snd (the (variable 9 0 itn sa))"
  define a4 where "a4 = snd (the (expression 9 0 (expectS TkAssign (if False then emit0 DUP a1 else a1))))"
  define b1 where "b1 = snd (the (variable 9 0 itr sb))"
  define b4 where "b4 = snd (the (expression 9 0 (expectS TkAssign (if False then emit0 DUP b1 else b1))))"
  have av: "variable 9 0 itn sa = Some (Some intDesc, a1)"
    unfolding a1_def itn_def sa_def by (simp add: evals cong: bind_weak_cong)
  have ae: "expression 9 0 (expectS TkAssign (if False then emit0 DUP a1 else a1)) = Some (Some realDesc, a4)"
    and ap: "code a4 = [Instr PUSHVAR 0 (IntegerDatum 1), Instr PUSH 0 (RealDatum (3 / 2))]"
      "nErrors a4 = 0" "diags a4 = []"
    unfolding a4_def a1_def itn_def sa_def by (simp_all add: evals cong: bind_weak_cong)
  have bv: "variable 9 0 itr sb = Some (Some realDesc, b1)"
    unfolding b1_def itr_def sb_def by (simp add: evals cong: bind_weak_cong)
  have be: "expression 9 0 (expectS TkAssign (if False then emit0 DUP b1 else b1)) = Some (Some intDesc, b4)"
    and bp: "code b4 = [Instr PUSHVAR 0 (IntegerDatum 2), Instr PUSH 0 (IntegerDatum 3)]"
      "nErrors b4 = 0" "diags b4 = []"
    unfolding b4_def b1_def itr_def sb_def by (simp_all add: evals cong: bind_weak_cong)
  have ti: "tclass intDesc = Integer \<and> tclass realDesc = Real"
    and tr: "tclass realDesc = Real \<and> tclass intDesc = Integer"
    and sz: "tsize intDesc = 1" "tsize realDesc = 1" "limitChecks intDesc = []"
    and ka: "skind (esym itn) = Variable" and kb: "skind (esym itr) = Variable"
    by (simp_all add: intDesc_def realDesc_def newIntDesc_def limitChecks_def maxRange_def
        itn_def itr_def makeVar_def)
  obtain sf where c: "compile 10 progRounding = Some sf"
    and d: "diags sf = [[Lit ''rounding real to fit in an integer'']]"
    using compile_progRounding by auto
  note A = assignment_conversions [of itn 9 0 sa intDesc a1 False realDesc a4,
      THEN conjunct1, THEN mp, OF conjI, OF disjI1, OF conjI, OF ka av ae,
      THEN conjunct1, THEN mp, OF ti]
  note B = assignment_conversions [of itr 9 0 sb realDesc b1 False intDesc b4,
      THEN conjunct1, THEN mp, OF conjI, OF disjI1, OF conjI, OF kb bv be,
      THEN conjunct2, THEN mp, OF tr]
  note C = assignment_conversions [of itn 9 0 sa intDesc a1 False realDesc a4 10 progRounding sf,
      THEN conjunct2, THEN mp, OF c, THEN conjunct2, THEN conjunct2, THEN conjunct1,
      THEN mp, OF d]
  from A B C c show ?thesis
    unfolding itn_def [symmetric] itr_def [symmetric] sa_def [symmetric] sb_def [symmetric]
    by (auto simp: ap bp sz)
qed

subsection \<open>The symbol table\<close>

lemma set_purgeLoop: "set (purgeLoop l t) = {e \<in> set t. slevel (esym e) \<noteq> l}"
  by (induction t) auto

lemma purgeLoop_filter: "purgeLoop l t = filter (\<lambda>e. slevel (esym e) \<noteq> l) t"
  by (induction t) auto

text \<open>
  Claim C4. Whatever the symbol table holds, after \<^verbatim>\<open>purge(l)\<close> no entry has level \<open>l\<close>,
  every entry of a level below \<open>l\<close> is still there, and the entries below \<open>l\<close> are the
  same entries (name, kind, level, value and type) in the same order as before.
\<close>

theorem purge_removes_level_only:
  "(\<forall>e \<in> set (symtbl (purge l s)). slevel (esym e) \<noteq> l)
   \<and> (\<forall>e \<in> set (symtbl s). slevel (esym e) < l \<longrightarrow> e \<in> set (symtbl (purge l s)))
   \<and> filter (\<lambda>e. slevel (esym e) < l) (symtbl (purge l s))
       = filter (\<lambda>e. slevel (esym e) < l) (symtbl s)"
proof -
  have "filter (\<lambda>e. slevel (esym e) < l) (filter (\<lambda>e. slevel (esym e) \<noteq> l) t)
          = filter (\<lambda>e. slevel (esym e) < l) t" for t :: SymbolTable
    by (induction t) auto
  then show ?thesis
    by (simp add: purge_def set_purgeLoop) (simp add: purgeLoop_filter)
qed

theorem purge_removes_level_only_witness:
  "symtbl (purge 1 twoLevels) =
     [\<lparr>eid = 0, ename = ''x'', esym = makeVar 0 4 (Some realDesc)\<rparr>,
      \<lparr>eid = 1, ename = ''p'', esym = makeSbr Procedure 0\<rparr>]
   \<and> filter (\<lambda>e. slevel (esym e) < 1) (symtbl twoLevels) =
     [\<lparr>eid = 0, ename = ''x'', esym = makeVar 0 4 (Some realDesc)\<rparr>,
      \<lparr>eid = 1, ename = ''p'', esym = makeSbr Procedure 0\<rparr>]"
  using purge_removes_level_only [of 1 twoLevels]
  by (simp add: twoLevels_def purge_def insertS_def insert_sym_def Compilier_def makeVar_def makeSbr_def)

lemma closestFrom_level: "slevel (esym c) \<le> slevel (esym (closestFrom c es))"
  by (induction es arbitrary: c) (auto intro: order_trans less_imp_le)

lemma closestFrom_last:
  "\<forall>e \<in> set (c # es). slevel (esym e) < slevel (esym x) \<Longrightarrow> closestFrom c (es @ [x]) = x"
  by (induction es arbitrary: c) auto

lemma lookup_shadow:
  assumes "\<forall>e \<in> set (symtbl s). ename e = n \<longrightarrow> slevel (esym e) < slevel v"
  shows "lookup n (insertS n v s)
           = (Some \<lparr>eid = nextId s, ename = n, esym = v\<rparr>, insertS n v s)"
proof (cases "equal_range n (symtbl s)")
  case Nil
  then show ?thesis
    by (simp add: lookup_def insertS_def insert_sym_def equal_range_def)
next
  case (Cons c es)
  have "\<forall>e \<in> set (c # es). slevel (esym e) < slevel v"
    using assms Cons [symmetric] by (auto simp: equal_range_def)
  then have "closestFrom c (es @ [\<lparr>eid = nextId s, ename = n, esym = v\<rparr>])
               = \<lparr>eid = nextId s, ename = n, esym = v\<rparr>"
    by (intro closestFrom_last) simp
  then show ?thesis
    using Cons by (simp add: lookup_def insertS_def insert_sym_def equal_range_def)
qed

lemma symtbl_PComp_new:
  "symtbl PComp_new =
     [\<lparr>eid = 0, ename = ''bool'', esym = makeType 0 (Some boolDesc)\<rparr>,
      \<lparr>eid = 1, ename = ''char'', esym = makeType 0 (Some charDesc)\<rparr>,
      \<lparr>eid = 2, ename = ''integer'', esym = makeType 0 (Some intDesc)\<rparr>,
      \<lparr>eid = 3, ename = ''real'', esym = makeType 0 (Some realDesc)\<rparr>,
      \<lparr>eid = 4, ename = ''maxint'', esym = makeConst 0 (IntegerDatum (maximum maxRange)) (Some intDesc)\<rparr>,
      \<lparr>eid = 5, ename = ''nil'', esym = makeConst 0 (IntegerDatum 0) (Some (newPointerDesc (Some intDesc)))\<rparr>,
      \<lparr>eid = 6, ename = ''true'', esym = makeConst 0 (IntegerDatum 1) (Some boolDesc)\<rparr>,
      \<lparr>eid = 7, ename = ''false'', esym = makeConst 0 (IntegerDatum 0) (Some boolDesc)\<rparr>]"
  by (simp add: PComp_new_def insertS_def insert_sym_def Compilier_def)

text \<open>
  Claim C9. The constructor leaves a compiler that has read no token and emitted no code,
  whose symbol table holds exactly the level 0 entries of the types bool, char, integer
  and real and of the constants maxint (the maximum of the maximal range), nil (0, of a
  pointer type), true (1) and false (0). Looking any of them up succeeds without a
  diagnostic, and once an entry of the same name is declared at a higher level, the lookup
  yields that entry.
\<close>

theorem builtins_declared_at_level_0:
  "pending PComp_new = [] \<and> kind (cur PComp_new) = TkUnknown \<and> code PComp_new = []
   \<and> map (\<lambda>e. (ename e, esym e)) (symtbl PComp_new) = builtins
   \<and> (\<forall>(n, v) \<in> set builtins. slevel v = 0)
   \<and> map (\<lambda>(n, v). (skind v, svalue v, map_option tclass (stype v))) builtins =
       [(Type, IntegerDatum 0, Some Boolean), (Type, IntegerDatum 0, Some Character),
        (Type, IntegerDatum 0, Some Integer), (Type, IntegerDatum 0, Some Real),
        (Constant, IntegerDatum (maximum maxRange), Some Integer),
        (Constant, IntegerDatum 0, Some Pointer),
        (Constant, IntegerDatum 1, Some Boolean), (Constant, IntegerDatum 0, Some Boolean)]
   \<and> (\<forall>(n, v) \<in> set builtins.
         \<exists>e. lookup n PComp_new = (Some e, PComp_new) \<and> ename e = n \<and> esym e = v)
   \<and> (\<forall>(n, v) \<in> set builtins. \<forall>v'. 0 < slevel v' \<longrightarrow>
         lookup n (insertS n v' PComp_new)
           = (Some \<lparr>eid = nextId PComp_new, ename = n, esym = v'\<rparr>, insertS n v' PComp_new))"
proof -
  have shadow: "lookup n (insertS n v' PComp_new)
           = (Some \<lparr>eid = nextId PComp_new, ename = n, esym = v'\<rparr>, insertS n v' PComp_new)"
    if "0 < slevel v'" for n v'
    using that by (intro lookup_shadow) (auto simp: symtbl_PComp_new makeType_def makeConst_def)
  have look: "\<forall>(n, v) \<in> set builtins.
         \<exists>e. lookup n PComp_new = (Some e, PComp_new) \<and> ename e = n \<and> esym e = v"
    by (simp add: builtins_def lookup_def equal_range_def symtbl_PComp_new)
  show ?thesis
    apply (intro conjI)
           apply (simp add: PComp_new_def insertS_def insert_sym_def Compilier_def)
          apply (simp add: PComp_new_def insertS_def insert_sym_def Compilier_def mkToken_def)
         apply (simp add: PComp_new_def insertS_def insert_sym_def Compilier_def)
        apply (simp add: symtbl_PComp_new builtins_def)
       apply (simp add: builtins_def makeType_def makeConst_def)
      apply (simp add: builtins_def makeType_def makeConst_def boolDesc_def charDesc_def
        intDesc_def realDesc_def newIntDesc_def newPointerDesc_def)
     apply (rule look)
    using shadow apply blast
    done
qed

theorem builtins_declared_at_level_0_witness:
  "map_option esym (fst (lookup ''maxint'' PComp_new))
     = Some (makeConst 0 (IntegerDatum 2147483647) (Some intDesc))
   \<and> lookup ''nil'' (insertS ''nil'' (makeVar 1 4 (Some intDesc)) PComp_new)
     = (Some \<lparr>eid = 8, ename = ''nil'', esym = makeVar 1 4 (Some intDesc)\<rparr>,
        insertS ''nil'' (makeVar 1 4 (Some intDesc)) PComp_new)"
proof -
  have m: "(''maxint'', makeConst 0 (IntegerDatum (maximum maxRange)) (Some intDesc)) \<in> set builtins"
    and n: "(''nil'', makeConst 0 (IntegerDatum 0) (Some (newPointerDesc (Some intDesc)))) \<in> set builtins"
    by (simp_all add: builtins_def)
  have l: "0 < slevel (makeVar 1 4 (Some intDesc))"
    by (simp add: makeVar_def)
  have i: "nextId PComp_new = 8"
    by (simp add: PComp_new_def insertS_def insert_sym_def Compilier_def)
  have look: "\<forall>(n, v) \<in> set builtins.
         \<exists>e. lookup n PComp_new = (Some e, PComp_new) \<and> ename e = n \<and> esym e = v"
    using builtins_declared_at_level_0 by (elim conjE)
  have shadow: "\<forall>(n, v) \<in> set builtins. \<forall>v'. 0 < slevel v' \<longrightarrow>
         lookup n (insertS n v' PComp_new)
           = (Some \<lparr>eid = nextId PComp_new, ename = n, esym = v'\<rparr>, insertS n v' PComp_new)"
    using builtins_declared_at_level_0 by (elim conjE)
  from look m have "map_option esym (fst (lookup ''maxint'' PComp_new))
     = Some (makeConst 0 (IntegerDatum 2147483647) (Some intDesc))"
    by (fastforce simp: maxRange_def)
  moreover from shadow n l have "lookup ''nil'' (insertS ''nil'' (makeVar 1 4 (Some intDesc)) PComp_new)
     = (Some \<lparr>eid = 8, ename = ''nil'', esym = makeVar 1 4 (Some intDesc)\<rparr>,
        insertS ''nil'' (makeVar 1 4 (Some intDesc)) PComp_new)"
    unfolding i by fast
  ultimately show ?thesis by simp
qed

end
